theory Spec2Isabelle
  imports Complex_Main
begin

section \<open>Values of the plugin\<close>

text \<open>
  A Python \<open>str\<close> is a sequence of Unicode code points, so it is modelled as a list of
  natural numbers. The source's literals are Chinese text; each is written out as its
  code points next to the line of \<open>plugin.py\<close> it stands on. ASCII pieces are written
  with \<open>ustr\<close>.
\<close>

type_synonym pystr = "nat list"

definition ustr :: "string \<Rightarrow> pystr" where
  "ustr s = map of_char s"

text \<open>
  An exception caught by \<open>except Exception as e\<close>, carried as the text \<open>str(e)\<close>.
  Signals outside the class \<open>Exception\<close> (task cancellation, interpreter exit) are not
  part of the model.
\<close>

datatype exn = Exception pystr

text \<open>A conversation stream handle of the host; the plugin reads its \<open>stream_id\<close>.\<close>

datatype stream = Stream (stream_id: pystr)

text \<open>
  The calls the plugin makes to the host's APIs (\<open>person_api\<close>, \<open>chat_api\<close>,
  \<open>send_api\<close>), recorded in the order they are made.
\<close>

datatype call =
    GetPersonIdByName pystr
  | GetPersonValue "pystr option" pystr
  | GetPersonId pystr int
  | GetStreamByUserId pystr pystr
  | TextToStream pystr pystr
  | GetPrivateStreams pystr
  | GetStreamInfo stream

text \<open>
  The surroundings of the plugin, none of which is under \<open>src/\<close>: the wall clock read by
  \<open>time.time()\<close> (the reading of the n-th call), the random module, the interpreter's
  \<open>int()\<close> and the per-character test behind \<open>str.isdigit()\<close>, and the host's APIs, each
  answering with a value or raising. A host function that returns an identifier or a
  handle answers \<open>None\<close> for Python's \<open>None\<close>.
\<close>

record env =
  clock :: "nat \<Rightarrow> real"
  random_random :: real
  random_index :: nat
  builtin_int :: "pystr \<Rightarrow> exn + int"
  unicode_digit :: "nat \<Rightarrow> bool"
  get_person_id_by_name :: "pystr \<Rightarrow> exn + pystr option"
  get_person_value :: "pystr option \<Rightarrow> pystr \<Rightarrow> exn + pystr option"
  get_person_value_default :: "pystr option \<Rightarrow> pystr \<Rightarrow> pystr \<Rightarrow> exn + pystr"
  get_person_id :: "pystr \<Rightarrow> int \<Rightarrow> exn + pystr option"
  get_stream_by_user_id :: "pystr \<Rightarrow> pystr \<Rightarrow> exn + stream option"
  text_to_stream :: "pystr \<Rightarrow> pystr \<Rightarrow> bool \<Rightarrow> bool \<Rightarrow> exn + bool"
  get_private_streams :: "pystr \<Rightarrow> exn + stream list"
  get_stream_info :: "stream \<Rightarrow> exn + (pystr \<rightharpoonup> pystr)"

text \<open>
  The mutable state: the class attribute \<open>PrivateChatCooldown._cooldowns\<close> (a dict from
  user id to the time of the last recorded send), how many times the clock has been read,
  and the host calls made so far.
\<close>

record world =
  cooldowns :: "pystr \<rightharpoonup> real"
  ticks :: nat
  calls :: "call list"

definition time_time :: "env \<Rightarrow> world \<Rightarrow> real \<times> world" where
  "time_time e w = (clock e (ticks w), w\<lparr>ticks := Suc (ticks w)\<rparr>)"

definition host_call :: "call \<Rightarrow> world \<Rightarrow> world" where
  "host_call c w = w\<lparr>calls := calls w @ [c]\<rparr>"

section \<open>Python's floats\<close>

text \<open>
  A Python \<open>float\<close> is an IEEE binary64 value. The clock readings and the recorded times
  are finite floats, carried as the real numbers they stand for; the result of an
  operation on them is the exact result rounded to the nearest binary64 value, or an
  infinity when that is out of range.
\<close>

text \<open>
  The binade of a non-zero number: the integer \<open>b\<close> with \<open>2^b \<le> |x| < 2^(b+1)\<close>, found by
  halving a number of at least 1 and doubling a smaller one.
\<close>

function halvings :: "real \<Rightarrow> nat" where
  "halvings y = (if y < 2 then 0 else Suc (halvings (y / 2)))"
  by pat_completeness auto
termination
proof (relation "measure (\<lambda>y. nat \<lfloor>y\<rfloor>)")
  show "wf (measure (\<lambda>y::real. nat \<lfloor>y\<rfloor>))" by simp
next
  fix y :: real
  assume "\<not> y < 2"
  then have "y / 2 \<le> y - 1" by simp
  moreover have "y - 1 < of_int \<lfloor>y\<rfloor>" by linarith
  ultimately have "y / 2 < of_int \<lfloor>y\<rfloor>" by linarith
  then have "\<lfloor>y / 2\<rfloor> < \<lfloor>y\<rfloor>" by (simp add: floor_less_iff)
  moreover have "0 < \<lfloor>y\<rfloor>" using \<open>\<not> y < 2\<close> by simp
  ultimately show "(y / 2, y) \<in> measure (\<lambda>y. nat \<lfloor>y\<rfloor>)" by simp
qed

declare halvings.simps [simp del]

function doublings :: "real \<Rightarrow> nat" where
  "doublings y = (if y \<le> 0 \<or> 1 \<le> y then 0 else Suc (doublings (2 * y)))"
  by pat_completeness auto
termination
proof (relation "measure (\<lambda>y. nat \<lceil>1 / y\<rceil>)")
  show "wf (measure (\<lambda>y::real. nat \<lceil>1 / y\<rceil>))" by simp
next
  fix y :: real
  assume "\<not> (y \<le> 0 \<or> 1 \<le> y)"
  then have y: "0 < y" "y < 1" by simp_all
  define z where "z = 1 / y"
  have z: "1 < z" using y by (simp add: z_def)
  have half: "1 / (2 * y) = z / 2" by (simp add: z_def)
  have "\<lceil>z / 2\<rceil> < \<lceil>z\<rceil>"
  proof -
    have c2: "2 \<le> \<lceil>z\<rceil>" using z by linarith
    have "z / 2 \<le> of_int (\<lceil>z\<rceil> - 1)"
    proof -
      have "(2 :: real) \<le> of_int \<lceil>z\<rceil>"
        using c2 by linarith
      with le_of_int_ceiling [of z] show ?thesis
        unfolding of_int_diff of_int_1 by linarith
    qed
    then have "\<lceil>z / 2\<rceil> \<le> \<lceil>z\<rceil> - 1" by (simp only: ceiling_le_iff)
    then show ?thesis by simp
  qed
  moreover have "0 < \<lceil>z\<rceil>" using z by linarith
  ultimately show "(2 * y, y) \<in> measure (\<lambda>y. nat \<lceil>1 / y\<rceil>)"
    by (simp add: half z_def [symmetric])
qed

declare doublings.simps [simp del]

definition binade :: "real \<Rightarrow> int" where
  "binade x = (if 1 \<le> \<bar>x\<bar> then int (halvings \<bar>x\<bar>) else - int (doublings \<bar>x\<bar>))"

text \<open>Rounding to the nearest integer, a tie going to the even one.\<close>

definition round_half_even :: "real \<Rightarrow> int" where
  "round_half_even y =
     (let f = \<lfloor>y\<rfloor>; d = y - of_int f
      in if d < 1 / 2 then f else if 1 / 2 < d then f + 1 else if even f then f else f + 1)"

text \<open>
  The binary64 value nearest to a real number: a multiple of \<open>2^k\<close>, where \<open>k\<close> leaves
  53 bits for the significand and is at least -1074 (the subnormal spacing).
\<close>

definition round64 :: "real \<Rightarrow> real" where
  "round64 x =
     (if x = 0 then 0
      else (let k = max (- 1074) (binade x - 52)
            in of_int (round_half_even (x / 2 powi k)) * 2 powi k))"

datatype pyfloat = Finite real | PosInf | NegInf

definition to_float :: "real \<Rightarrow> pyfloat" where
  "to_float x =
     (let r = round64 x
      in if 2 ^ 1024 \<le> r then PosInf else if r \<le> - (2 ^ 1024) then NegInf else Finite r)"

text \<open>\<open>a - b\<close> for a finite float \<open>a\<close>.\<close>

definition float_sub :: "real \<Rightarrow> pyfloat \<Rightarrow> pyfloat" where
  "float_sub a b =
     (case b of Finite r \<Rightarrow> to_float (a - r) | PosInf \<Rightarrow> NegInf | NegInf \<Rightarrow> PosInf)"

text \<open>\<open>x >= n\<close> for a float \<open>x\<close> and an integer \<open>n\<close>: Python compares the exact values.\<close>

definition float_ge_int :: "pyfloat \<Rightarrow> int \<Rightarrow> bool" where
  "float_ge_int x n =
     (case x of Finite r \<Rightarrow> real_of_int n \<le> r | PosInf \<Rightarrow> True | NegInf \<Rightarrow> False)"

text \<open>
  The conversion of an integer operand of a float operation: the nearest float, or
  \<open>OverflowError\<close> when the integer is out of the floats' range.
\<close>

definition float_of_int :: "int \<Rightarrow> exn + real" where
  "float_of_int n =
     (case to_float (real_of_int n) of
        Finite r \<Rightarrow> Inr r
      | PosInf \<Rightarrow> Inl (Exception (ustr ''int too large to convert to float''))
      | NegInf \<Rightarrow> Inl (Exception (ustr ''int too large to convert to float'')))"

text \<open>
  Python's \<open>int(x)\<close> on a float: the fractional part is dropped, towards zero; an infinity
  raises \<open>OverflowError\<close>.
\<close>

definition py_int_of_float :: "real \<Rightarrow> int" where
  "py_int_of_float r = (if 0 \<le> r then \<lfloor>r\<rfloor> else \<lceil>r\<rceil>)"

definition int_of_float :: "pyfloat \<Rightarrow> exn + int" where
  "int_of_float x =
     (case x of
        Finite r \<Rightarrow> Inr (py_int_of_float r)
      | PosInf \<Rightarrow> Inl (Exception (ustr ''cannot convert float infinity to integer''))
      | NegInf \<Rightarrow> Inl (Exception (ustr ''cannot convert float infinity to integer'')))"

section \<open>PrivateChatCooldown (plugin.py, lines 37-58)\<close>

text \<open>\<open>cls._cooldowns.get(user_id, 0)\<close>: the recorded time, or 0 without a record.\<close>

definition cooldowns_get :: "world \<Rightarrow> pystr \<Rightarrow> real" where
  "cooldowns_get w user_id = (case cooldowns w user_id of None \<Rightarrow> 0 | Some t \<Rightarrow> t)"

text \<open>
  Line 46: the float difference of the clock reading and the recorded time (the integer 0
  of the default is converted to the float 0.0), compared with the integer cooldown.
\<close>

definition can_send :: "env \<Rightarrow> pystr \<Rightarrow> int \<Rightarrow> world \<Rightarrow> bool \<times> world" where
  "can_send e user_id cooldown_seconds w =
     (let last_time = cooldowns_get w user_id;
          (now, w') = time_time e w
      in (float_ge_int (float_sub now (Finite last_time)) cooldown_seconds, w'))"

definition record_send :: "env \<Rightarrow> pystr \<Rightarrow> world \<Rightarrow> world" where
  "record_send e user_id w =
     (let (now, w') = time_time e w
      in w'\<lparr>cooldowns := (cooldowns w')(user_id \<mapsto> now)\<rparr>)"

text \<open>
  Lines 57-58: the clock is read, the integer cooldown is converted to a float for the
  float subtraction, and \<open>int()\<close> truncates the result. \<open>Inl\<close> is an exception leaving
  the method.
\<close>

definition get_remaining_time :: "env \<Rightarrow> pystr \<Rightarrow> int \<Rightarrow> world \<Rightarrow> (exn + int) \<times> world" where
  "get_remaining_time e user_id cooldown_seconds w =
     (let last_time = cooldowns_get w user_id;
          (now, w') = time_time e w;
          elapsed = float_sub now (Finite last_time)
      in case float_of_int cooldown_seconds of
           Inl ex \<Rightarrow> (Inl ex, w')
         | Inr c \<Rightarrow>
             (case int_of_float (float_sub c elapsed) of
                Inl ex \<Rightarrow> (Inl ex, w')
              | Inr remaining \<Rightarrow> (Inr (max 0 remaining), w')))"

section \<open>Python's string operations\<close>

text \<open>\<open>str(n)\<close> of an integer, as an f-string renders it: decimal digits, \<open>-\<close> first if negative.\<close>

function show_nat :: "nat \<Rightarrow> pystr" where
  "show_nat n = (if n < 10 then [48 + n] else show_nat (n div 10) @ [48 + n mod 10])"
  by pat_completeness auto
termination
  by (relation "measure id") auto

declare show_nat.simps [simp del]

definition str_of_int :: "int \<Rightarrow> pystr" where
  "str_of_int n = (if n < 0 then 45 # show_nat (nat (- n)) else show_nat (nat n))"

text \<open>Truth value of an optional string: \<open>None\<close> and the empty string are false.\<close>

definition truthy :: "pystr option \<Rightarrow> bool" where
  "truthy v = (case v of None \<Rightarrow> False | Some s \<Rightarrow> s \<noteq> [])"

text \<open>\<open>s.isdigit()\<close>: at least one character, and every character a digit.\<close>

definition isdigit :: "env \<Rightarrow> pystr \<Rightarrow> bool" where
  "isdigit e s = (s \<noteq> [] \<and> list_all (unicode_digit e) s)"

text \<open>
  \<open>s.replace(old, new)\<close>: the string is scanned from the left; where \<open>old\<close> starts, \<open>new\<close>
  is written and the scan goes on behind that occurrence. For an empty \<open>old\<close>, \<open>new\<close> is
  put before every character and at the end.
\<close>

function replace_scan :: "pystr \<Rightarrow> pystr \<Rightarrow> pystr \<Rightarrow> pystr" where
  "replace_scan old new [] = []"
| "replace_scan old new (c # cs) =
     (if old \<noteq> [] \<and> take (length old) (c # cs) = old
      then new @ replace_scan old new (drop (length old) (c # cs))
      else c # replace_scan old new cs)"
  by pat_completeness auto
termination
  by (relation "measure (\<lambda>(old, new, s). length s)") auto

declare replace_scan.simps [simp del]

definition str_replace :: "pystr \<Rightarrow> pystr \<Rightarrow> pystr \<Rightarrow> pystr" where
  "str_replace s old new =
     (if old = [] then new @ concat (map (\<lambda>c. c # new) s) else replace_scan old new s)"

text \<open>\<open>sep.join(xs)\<close>.\<close>

fun join :: "pystr \<Rightarrow> pystr list \<Rightarrow> pystr" where
  "join sep [] = []"
| "join sep [x] = x"
| "join sep (x # y # ys) = x @ sep @ join sep (y # ys)"

section \<open>Configuration\<close>

text \<open>
  The values \<open>config_getter(key, default)\<close> answers for the keys the plugin reads
  (the default where the key is not set): \<open>general.enabled\<close>, \<open>general.cooldown_seconds\<close>,
  \<open>smart_chat.only_known_users\<close>, \<open>messages.default_greeting\<close>, \<open>messages.random_greetings\<close>.
\<close>

record config =
  general_enabled :: bool
  general_cooldown_seconds :: int
  smart_chat_only_known_users :: bool
  messages_default_greeting :: pystr
  messages_random_greetings :: "pystr list"

section \<open>get_greeting_message (plugin.py, lines 117-127)\<close>

text \<open>\<open>random.choice(xs)\<close> on a non-empty list: the element at the drawn index.\<close>

definition random_choice :: "env \<Rightarrow> pystr list \<Rightarrow> pystr" where
  "random_choice e xs = xs ! (random_index e mod length xs)"

definition nickname_token :: pystr where
  "nickname_token = ustr ''{nickname}''"

text \<open>
  \<open>random.random()\<close> is only called when the list is not empty. Its result is a multiple
  of \<open>2^-53\<close> in \<open>[0, 1)\<close>; on those, exceeding the float \<open>0.3\<close> and exceeding \<open>3/10\<close> agree.
\<close>

definition get_greeting_message :: "env \<Rightarrow> config \<Rightarrow> pystr \<Rightarrow> pystr" where
  "get_greeting_message e config_getter nickname =
     (let random_greetings = messages_random_greetings config_getter;
          message =
            (if random_greetings \<noteq> [] \<and> 3 / 10 < random_random e
             then random_choice e random_greetings
             else messages_default_greeting config_getter)
      in str_replace message nickname_token nickname)"

section \<open>send_private_message (plugin.py, lines 130-182)\<close>

definition text_cooling_down :: "int \<Rightarrow> pystr" where
  \<comment> \<open>line 154: "cooling down, still" remaining "seconds to wait"\<close>
  "text_cooling_down remaining =
     [0x51B7, 0x5374, 0x4E2D, 0xFF0C, 0x8FD8, 0x9700, 0x7B49, 0x5F85, 0x20]
     @ str_of_int remaining @ [0x20, 0x79D2]"

definition text_no_stream :: "pystr \<Rightarrow> pystr" where
  \<comment> \<open>line 161: "no private stream found for user" user_id\<close>
  "text_no_stream user_id =
     [0x672A, 0x627E, 0x5230, 0x7528, 0x6237, 0x20] @ user_id
     @ [0x20, 0x7684, 0x79C1, 0x804A, 0x6D41]"

definition text_send_ok :: pystr where
  \<comment> \<open>line 175: "private message sent"\<close>
  "text_send_ok = [0x79C1, 0x804A, 0x6D88, 0x606F, 0x53D1, 0x9001, 0x6210, 0x529F]"

definition text_send_failed :: pystr where
  \<comment> \<open>line 178: "sending the message failed"\<close>
  "text_send_failed = [0x6D88, 0x606F, 0x53D1, 0x9001, 0x5931, 0x8D25]"

definition text_send_error :: "exn \<Rightarrow> pystr" where
  \<comment> \<open>line 182: "error while sending: " str(e)\<close>
  "text_send_error ex =
     (case ex of Exception s \<Rightarrow> [0x53D1, 0x9001, 0x51FA, 0x9519, 0x3A, 0x20] @ s)"

text \<open>
  The cooldown check of lines 150-154: the return it leads to, if any, and the state after
  the clock readings it made. The return is the refusal of line 154, or that of line 182
  when computing the remaining time raises. Without a \<open>config_getter\<close> nothing is
  checked.
\<close>

definition cooldown_check ::
  "env \<Rightarrow> pystr \<Rightarrow> config option \<Rightarrow> world \<Rightarrow> (bool \<times> pystr) option \<times> world" where
  "cooldown_check e user_id config_getter w =
     (case config_getter of
        None \<Rightarrow> (None, w)
      | Some cfg \<Rightarrow>
          (let cooldown_seconds = general_cooldown_seconds cfg;
               (ok, w1) = can_send e user_id cooldown_seconds w
           in if \<not> ok
              then (case get_remaining_time e user_id cooldown_seconds w1 of
                      (Inl ex, w2) \<Rightarrow> (Some (False, text_send_error ex), w2)
                    | (Inr remaining, w2) \<Rightarrow> (Some (False, text_cooling_down remaining), w2))
              else (None, w1)))"

definition send_private_message ::
  "env \<Rightarrow> pystr \<Rightarrow> pystr \<Rightarrow> pystr \<Rightarrow> config option \<Rightarrow> world \<Rightarrow> (bool \<times> pystr) \<times> world" where
  "send_private_message e user_id message platform config_getter w =
     (case cooldown_check e user_id config_getter w of
        (Some refusal, w1) \<Rightarrow> (refusal, w1)
      | (None, w1) \<Rightarrow>
          (let w2 = host_call (GetStreamByUserId user_id platform) w1
           in case get_stream_by_user_id e user_id platform of
                Inl ex \<Rightarrow> ((False, text_send_error ex), w2)
              | Inr None \<Rightarrow> ((False, text_no_stream user_id), w2)
              | Inr (Some chat_stream) \<Rightarrow>
                  (let w3 = host_call (TextToStream message (stream_id chat_stream)) w2
                   in case text_to_stream e message (stream_id chat_stream) True True of
                        Inl ex \<Rightarrow> ((False, text_send_error ex), w3)
                      | Inr success \<Rightarrow>
                          if success
                          then ((True, text_send_ok), record_send e user_id w3)
                          else ((False, text_send_failed), w3))))"

section \<open>is_user_known (plugin.py, lines 90-114)\<close>

text \<open>
  The first \<open>try\<close> block: whether the profile lookup answered a true value. A failing
  \<open>int(user_id)\<close> or a raising lookup ends the block in its \<open>except\<close>, which only logs.
\<close>

definition profile_known :: "env \<Rightarrow> pystr \<Rightarrow> pystr \<Rightarrow> world \<Rightarrow> bool \<times> world" where
  "profile_known e platform user_id w =
     (case builtin_int e user_id of
        Inl ex \<Rightarrow> (False, w)
      | Inr n \<Rightarrow>
          (let w1 = host_call (GetPersonId platform n) w
           in case get_person_id e platform n of
                Inl ex \<Rightarrow> (False, w1)
              | Inr person_id \<Rightarrow> (truthy person_id, w1)))"

text \<open>
  The result is \<open>Inr\<close> of the returned boolean; \<open>Inl\<close> would be an exception leaving the
  function.
\<close>

definition is_user_known :: "env \<Rightarrow> pystr \<Rightarrow> pystr \<Rightarrow> world \<Rightarrow> (exn + bool) \<times> world" where
  "is_user_known e platform user_id w =
     (let (known, w1) = profile_known e platform user_id w
      in if known then (Inr True, w1)
         else (let w2 = host_call (GetStreamByUserId user_id platform) w1
               in case get_stream_by_user_id e user_id platform of
                    Inl ex \<Rightarrow> (Inr False, w2)
                  | Inr None \<Rightarrow> (Inr False, w2)
                  | Inr (Some chat_stream) \<Rightarrow> (Inr True, w2)))"

section \<open>get_user_id_by_name (plugin.py, lines 60-88)\<close>

text \<open>
  The answer of \<open>get_person_value(person_id, "user_id")\<close> is \<open>None\<close> or the text \<open>str()\<close>
  gives for the value. Every exception ends in the \<open>except\<close> of line 86, which returns
  \<open>None\<close>.
\<close>

definition get_user_id_by_name :: "env \<Rightarrow> pystr \<Rightarrow> pystr \<Rightarrow> world \<Rightarrow> pystr option \<times> world" where
  "get_user_id_by_name e platform username w =
     (let w1 = host_call (GetPersonIdByName username) w
      in case get_person_id_by_name e username of
           Inl ex \<Rightarrow> (None, w1)
         | Inr person_id \<Rightarrow>
             if \<not> truthy person_id then (None, w1)
             else (let w2 = host_call (GetPersonValue person_id (ustr ''user_id'')) w1
                   in case get_person_value e person_id (ustr ''user_id'') of
                        Inl ex \<Rightarrow> (None, w2)
                      | Inr user_id \<Rightarrow> (user_id, w2)))"

section \<open>ProactivePrivateChatAction.execute (plugin.py, lines 221-289)\<close>

text \<open>
  What the action reads from itself: \<open>action_data.get("target_user_id", "")\<close>,
  \<open>action_data.get("message_content", "")\<close>, \<open>action_data.get("reason", ...)\<close> (only
  logged), \<open>self.platform\<close> and \<open>self.user_id\<close>.
\<close>

record action =
  action_target_user_id :: pystr
  action_message_content :: pystr
  action_reason :: pystr
  action_platform :: pystr
  action_user_id :: "pystr option"

definition text_disabled :: pystr where
  \<comment> \<open>line 227: "proactive private chat is disabled"\<close>
  "text_disabled = [0x4E3B, 0x52A8, 0x79C1, 0x804A, 0x529F, 0x80FD, 0x5DF2, 0x7981, 0x7528]"

definition text_id_not_found :: "pystr \<Rightarrow> pystr" where
  \<comment> \<open>line 243: "no ID found for user" name ", please check the user name"\<close>
  "text_id_not_found name =
     [0x672A, 0x627E, 0x5230, 0x7528, 0x6237, 0x20] @ name
     @ [0x20, 0x7684, 0x49, 0x44, 0xFF0C, 0x8BF7, 0x68C0, 0x67E5, 0x7528, 0x6237, 0x540D,
        0x662F, 0x5426, 0x6B63, 0x786E]"

definition text_no_target :: pystr where
  \<comment> \<open>line 251: "no target user given"\<close>
  "text_no_target = [0x672A, 0x6307, 0x5B9A, 0x76EE, 0x6807, 0x7528, 0x6237]"

definition text_not_known :: pystr where
  \<comment> \<open>line 260: "this user is not a known user, private chat skipped"\<close>
  "text_not_known =
     [0x8BE5, 0x7528, 0x6237, 0x4E0D, 0x662F, 0x5DF2, 0x77E5, 0x7528, 0x6237, 0xFF0C, 0x8DF3,
      0x8FC7, 0x79C1, 0x804A]"

definition text_friend :: pystr where
  \<comment> \<open>lines 265 and 268: "friend"\<close>
  "text_friend = [0x670B, 0x53CB]"

definition text_action_ok :: "pystr \<Rightarrow> pystr" where
  \<comment> \<open>line 287: "sent a private message to" nickname\<close>
  "text_action_ok nickname =
     [0x6210, 0x529F, 0x5411, 0x20] @ nickname
     @ [0x20, 0x53D1, 0x9001, 0x4E86, 0x79C1, 0x804A, 0x6D88, 0x606F]"

text \<open>
  Lines 234-243: a target that is not empty and not all digits is taken as a user name.
  \<open>Inl\<close> is the early return of line 243, \<open>Inr\<close> the target the function goes on with.
\<close>

definition resolve_target ::
  "env \<Rightarrow> action \<Rightarrow> world \<Rightarrow> ((bool \<times> pystr) + pystr) \<times> world" where
  "resolve_target e a w =
     (if action_target_user_id a \<noteq> [] \<and> \<not> isdigit e (action_target_user_id a)
      then (let (converted_user_id, w1) =
                  get_user_id_by_name e (action_platform a) (action_target_user_id a) w
            in case converted_user_id of
                 None \<Rightarrow> (Inl (False, text_id_not_found (action_target_user_id a)), w1)
               | Some c \<Rightarrow>
                   if c \<noteq> [] then (Inr c, w1)
                   else (Inl (False, text_id_not_found (action_target_user_id a)), w1))
      else (Inr (action_target_user_id a), w))"

text \<open>Lines 245-251: an empty target falls back to the user of the current chat.\<close>

definition default_target :: "action \<Rightarrow> pystr \<Rightarrow> (bool \<times> pystr) + pystr" where
  "default_target a target =
     (if target = []
      then (case action_user_id a of
              None \<Rightarrow> Inl (False, text_no_target)
            | Some u \<Rightarrow> if u \<noteq> [] then Inr u else Inl (False, text_no_target))
      else Inr target)"

text \<open>
  Lines 263-268 and 321-325: the display name of a user, or the fallback when
  \<open>int(user_id)\<close> or a lookup raises.
\<close>

definition lookup_nickname :: "env \<Rightarrow> pystr \<Rightarrow> pystr \<Rightarrow> pystr \<Rightarrow> world \<Rightarrow> pystr \<times> world" where
  "lookup_nickname e platform target fallback w =
     (case builtin_int e target of
        Inl ex \<Rightarrow> (fallback, w)
      | Inr n \<Rightarrow>
          (let w1 = host_call (GetPersonId platform n) w
           in case get_person_id e platform n of
                Inl ex \<Rightarrow> (fallback, w1)
              | Inr person_id \<Rightarrow>
                  (let w2 = host_call (GetPersonValue person_id (ustr ''nickname'')) w1
                   in case get_person_value_default e person_id (ustr ''nickname'') fallback of
                        Inl ex \<Rightarrow> (fallback, w2)
                      | Inr nickname \<Rightarrow> (nickname, w2))))"

text \<open>Lines 253-289, for the target settled above.\<close>

definition execute_for_target ::
  "env \<Rightarrow> config \<Rightarrow> action \<Rightarrow> pystr \<Rightarrow> world \<Rightarrow> (exn + bool \<times> pystr) \<times> world" where
  "execute_for_target e cfg a target w =
     (let (is_known, w1) =
            (if smart_chat_only_known_users cfg then is_user_known e (action_platform a) target w
             else (Inr True, w))
      in case is_known of
           Inl ex \<Rightarrow> (Inl ex, w1)
         | Inr False \<Rightarrow> (Inr (False, text_not_known), w1)
         | Inr True \<Rightarrow>
             (let (nickname, w2) = lookup_nickname e (action_platform a) target text_friend w1;
                  message =
                    (if action_message_content a = [] then get_greeting_message e cfg nickname
                     else str_replace (action_message_content a) nickname_token nickname);
                  ((success, result_msg), w3) =
                    send_private_message e target message (action_platform a) (Some cfg) w2
              in if success then (Inr (True, text_action_ok nickname), w3)
                 else (Inr (False, result_msg), w3)))"

definition ProactivePrivateChatAction_execute ::
  "env \<Rightarrow> config \<Rightarrow> action \<Rightarrow> world \<Rightarrow> (exn + bool \<times> pystr) \<times> world" where
  "ProactivePrivateChatAction_execute e cfg a w =
     (if \<not> general_enabled cfg then (Inr (False, text_disabled), w)
      else (case resolve_target e a w of
              (Inl early, w1) \<Rightarrow> (Inr early, w1)
            | (Inr target, w1) \<Rightarrow>
                (case default_target a target of
                   Inl early \<Rightarrow> (Inr early, w1)
                 | Inr target' \<Rightarrow> execute_for_target e cfg a target' w1)))"

section \<open>PrivateChatCommand.execute (plugin.py, lines 306-344)\<close>

definition DEFAULT_PLATFORM :: pystr where
  "DEFAULT_PLATFORM = ustr ''qq''"

text \<open>
  The groups the host matched in the command text: \<open>matched_groups.get("target_id", "")\<close>
  and \<open>matched_groups.get("message", None)\<close>.
\<close>

record command =
  matched_target_id :: pystr
  matched_message :: "pystr option"

definition text_bad_format :: pystr where
  \<comment> \<open>line 318: "wrong command format, please use: /private-chat <user ID> [message]"\<close>
  "text_bad_format =
     [0x547D, 0x4EE4, 0x683C, 0x5F0F, 0x9519, 0x8BEF, 0xFF0C, 0x8BF7, 0x4F7F, 0x7528, 0x3A,
      0x20, 0x2F, 0x79C1, 0x804A, 0x20, 0x3C, 0x7528, 0x6237, 0x49, 0x44, 0x3E, 0x20, 0x5B,
      0x6D88, 0x606F, 0x5185, 0x5BB9, 0x5D]"

definition text_user :: pystr where
  \<comment> \<open>lines 323 and 325: "user"\<close>
  "text_user = [0x7528, 0x6237]"

definition text_command_ok :: "pystr \<Rightarrow> pystr \<Rightarrow> pystr" where
  \<comment> \<open>line 342: "sent a private message to" nickname(target)\<close>
  "text_command_ok nickname target =
     [0x5DF2, 0x5411, 0x20] @ nickname @ ustr ''('' @ target
     @ [0x29, 0x20, 0x53D1, 0x9001, 0x79C1, 0x804A, 0x6D88, 0x606F]"

definition text_command_failed :: "pystr \<Rightarrow> pystr" where
  \<comment> \<open>line 344: "sending failed: " result_msg\<close>
  "text_command_failed result_msg = [0x53D1, 0x9001, 0x5931, 0x8D25, 0x3A, 0x20] @ result_msg"

definition PrivateChatCommand_execute ::
  "env \<Rightarrow> config \<Rightarrow> command \<Rightarrow> world \<Rightarrow> (bool \<times> pystr \<times> bool) \<times> world" where
  "PrivateChatCommand_execute e cfg m w =
     (let target = matched_target_id m;
          custom_message = matched_message m
      in if target = [] then ((False, text_bad_format, True), w)
         else (let (nickname, w1) = lookup_nickname e DEFAULT_PLATFORM target text_user w;
                   message =
                     (case custom_message of
                        None \<Rightarrow> get_greeting_message e cfg nickname
                      | Some c \<Rightarrow>
                          if c \<noteq> [] then str_replace c nickname_token nickname
                          else get_greeting_message e cfg nickname);
                   ((success, result_msg), w2) =
                     send_private_message e target message DEFAULT_PLATFORM (Some cfg) w1
               in if success then ((True, text_command_ok nickname target, True), w2)
                  else ((False, text_command_failed result_msg, True), w2)))"

section \<open>ListPrivateStreamsCommand.execute (plugin.py, lines 359-385)\<close>

definition text_no_streams :: pystr where
  \<comment> \<open>line 367: "there are no private streams available"\<close>
  "text_no_streams =
     [0x5F53, 0x524D, 0x6CA1, 0x6709, 0x53EF, 0x7528, 0x7684, 0x79C1, 0x804A, 0x6D41]"

definition text_list_header :: pystr where
  \<comment> \<open>line 370: (clipboard sign) "list of available private streams:"\<close>
  "text_list_header =
     [0x1F4CB, 0x20, 0x53EF, 0x7528, 0x7684, 0x79C1, 0x804A, 0x6D41, 0x5217, 0x8868, 0xFF1A]"

definition text_unknown :: pystr where
  \<comment> \<open>line 374: "unknown"\<close>
  "text_unknown = [0x672A, 0x77E5]"

definition text_unknown_user :: pystr where
  \<comment> \<open>line 375: "unknown user"\<close>
  "text_unknown_user = [0x672A, 0x77E5, 0x7528, 0x6237]"

definition text_more_streams :: "int \<Rightarrow> pystr" where
  \<comment> \<open>line 379: "... and" n "more private streams"\<close>
  "text_more_streams n =
     [0x2E, 0x2E, 0x2E, 0x20, 0x8FD8, 0x6709, 0x20] @ str_of_int n
     @ [0x20, 0x4E2A, 0x79C1, 0x804A, 0x6D41]"

definition text_list_failed :: "exn \<Rightarrow> pystr" where
  \<comment> \<open>line 385: "listing failed: " str(e)\<close>
  "text_list_failed ex =
     (case ex of Exception s \<Rightarrow> [0x83B7, 0x53D6, 0x5931, 0x8D25, 0x3A, 0x20] @ s)"

text \<open>\<open>stream_info.get(key, default)\<close>, the value as the f-string renders it.\<close>

definition info_get :: "(pystr \<rightharpoonup> pystr) \<Rightarrow> pystr \<Rightarrow> pystr \<Rightarrow> pystr" where
  "info_get stream_info key dflt = (case stream_info key of None \<Rightarrow> dflt | Some v \<Rightarrow> v)"

text \<open>Line 376: index, a dot, the user name, and the id in parentheses.\<close>

definition stream_line :: "int \<Rightarrow> (pystr \<rightharpoonup> pystr) \<Rightarrow> pystr" where
  "stream_line i stream_info =
     (let uid = info_get stream_info (ustr ''user_id'') text_unknown;
          user_name = info_get stream_info (ustr ''user_name'') text_unknown_user
      in str_of_int i @ ustr ''. '' @ user_name @ ustr '' (ID: '' @ uid @ ustr '')'')"

text \<open>
  The loop of lines 372-376 over the streams still to render, with the index of the next
  one and the lines built so far. A raising \<open>get_stream_info\<close> ends the loop.
\<close>

fun render_streams ::
  "env \<Rightarrow> int \<Rightarrow> stream list \<Rightarrow> pystr list \<Rightarrow> world \<Rightarrow> (exn + pystr list) \<times> world" where
  "render_streams e i [] lines w = (Inr lines, w)"
| "render_streams e i (s # ss) lines w =
     (let w1 = host_call (GetStreamInfo s) w
      in case get_stream_info e s of
           Inl ex \<Rightarrow> (Inl ex, w1)
         | Inr stream_info \<Rightarrow>
             render_streams e (i + 1) ss (lines @ [stream_line i stream_info]) w1)"

definition ListPrivateStreamsCommand_execute ::
  "env \<Rightarrow> world \<Rightarrow> (bool \<times> pystr \<times> bool) \<times> world" where
  "ListPrivateStreamsCommand_execute e w =
     (let w1 = host_call (GetPrivateStreams DEFAULT_PLATFORM) w
      in case get_private_streams e DEFAULT_PLATFORM of
           Inl ex \<Rightarrow> ((False, text_list_failed ex, True), w1)
         | Inr private_streams \<Rightarrow>
             if private_streams = [] then ((True, text_no_streams, True), w1)
             else (case render_streams e 1 (take 20 private_streams) [text_list_header, []] w1 of
                     (Inl ex, w2) \<Rightarrow> ((False, text_list_failed ex, True), w2)
                   | (Inr lines, w2) \<Rightarrow>
                       (let lines' =
                              (if 20 < length private_streams
                               then lines @ [text_more_streams (int (length private_streams) - 20)]
                               else lines)
                        in ((True, join [10] lines', True), w2))))"

section \<open>Conditions the statements below speak of\<close>

text \<open>
  The cooldown of a user is active for a call of \<open>send_private_message\<close>: a
  \<open>config_getter\<close> was passed and \<open>can_send\<close> answers false in the state of the call.
\<close>

definition cooldown_active :: "env \<Rightarrow> pystr \<Rightarrow> config option \<Rightarrow> world \<Rightarrow> bool" where
  "cooldown_active e user_id config_getter w =
     (case config_getter of
        None \<Rightarrow> False
      | Some cfg \<Rightarrow> \<not> fst (can_send e user_id (general_cooldown_seconds cfg) w))"

text \<open>
  The host finds a stream for the user and its transport reports success for the message.
\<close>

definition delivery_succeeds :: "env \<Rightarrow> pystr \<Rightarrow> pystr \<Rightarrow> pystr \<Rightarrow> bool" where
  "delivery_succeeds e user_id message platform =
     (case get_stream_by_user_id e user_id platform of
        Inr (Some chat_stream) \<Rightarrow>
          text_to_stream e message (stream_id chat_stream) True True = Inr True
      | _ \<Rightarrow> False)"

text \<open>The two signals of \<open>is_user_known\<close>: a profile entry, and a conversation stream.\<close>

definition profile_found :: "env \<Rightarrow> pystr \<Rightarrow> pystr \<Rightarrow> bool" where
  "profile_found e platform user_id =
     (case builtin_int e user_id of
        Inl ex \<Rightarrow> False
      | Inr n \<Rightarrow> (case get_person_id e platform n of Inl ex \<Rightarrow> False | Inr p \<Rightarrow> truthy p))"

definition stream_exists :: "env \<Rightarrow> pystr \<Rightarrow> pystr \<Rightarrow> bool" where
  "stream_exists e user_id platform =
     (case get_stream_by_user_id e user_id platform of Inr (Some s) \<Rightarrow> True | _ \<Rightarrow> False)"


text \<open>The token occurs in a string: it starts at some position of it.\<close>

fun occurs :: "pystr \<Rightarrow> pystr \<Rightarrow> bool" where
  "occurs tok [] = (tok = [])"
| "occurs tok (c # cs) = (take (length tok) (c # cs) = tok \<or> occurs tok cs)"

text \<open>A real number is a finite binary64 value: rounding leaves it as it is.\<close>

definition is_float64 :: "real \<Rightarrow> bool" where
  "is_float64 x = (to_float x = Finite x)"

text \<open>The number a string of decimal digits stands for.\<close>

definition read_decimal :: "pystr \<Rightarrow> nat" where
  "read_decimal s = foldl (\<lambda>n c. 10 * n + (c - 48)) 0 s"

text \<open>
  The host describes a stream without raising, and the description it gives.
\<close>

definition stream_info_ok :: "env \<Rightarrow> stream \<Rightarrow> bool" where
  "stream_info_ok e s = (case get_stream_info e s of Inl ex \<Rightarrow> False | Inr info \<Rightarrow> True)"

definition the_info :: "env \<Rightarrow> stream \<Rightarrow> (pystr \<rightharpoonup> pystr)" where
  "the_info e s = (case get_stream_info e s of Inl ex \<Rightarrow> Map.empty | Inr info \<Rightarrow> info)"

text \<open>
  Concrete surroundings for evaluating the definitions: a host that knows nobody and has
  no streams, a clock that always reads a given time, and the ASCII digits.
\<close>

definition quiet_env :: "real \<Rightarrow> env" where
  "quiet_env t =
     \<lparr> clock = (\<lambda>n. t),
       random_random = 0,
       random_index = 0,
       builtin_int = (\<lambda>s. Inl (Exception (ustr ''invalid literal''))),
       unicode_digit = (\<lambda>c. 48 \<le> c \<and> c \<le> 57),
       get_person_id_by_name = (\<lambda>n. Inr None),
       get_person_value = (\<lambda>p f. Inr None),
       get_person_value_default = (\<lambda>p f d. Inr d),
       get_person_id = (\<lambda>p n. Inr None),
       get_stream_by_user_id = (\<lambda>u p. Inr None),
       text_to_stream = (\<lambda>t s ty st. Inr False),
       get_private_streams = (\<lambda>p. Inr []),
       get_stream_info = (\<lambda>s. Inr Map.empty) \<rparr>"

definition fresh_world :: world where
  "fresh_world = \<lparr> cooldowns = Map.empty, ticks = 0, calls = [] \<rparr>"

definition world_with :: "pystr \<Rightarrow> real \<Rightarrow> world" where
  "world_with user_id t = \<lparr> cooldowns = [user_id \<mapsto> t], ticks = 0, calls = [] \<rparr>"

text \<open>
  A host that knows one user: id 42, display name Alex, with a conversation stream, and a
  transport that delivers every message.
\<close>

definition alex_env :: "real \<Rightarrow> env" where
  "alex_env t =
     \<lparr> clock = (\<lambda>n. t),
       random_random = 1 / 2,
       random_index = 0,
       builtin_int =
         (\<lambda>s. if s = ustr ''42'' then Inr 42
              else Inl (Exception (ustr ''invalid literal for int()''))),
       unicode_digit = (\<lambda>c. 48 \<le> c \<and> c \<le> 57),
       get_person_id_by_name =
         (\<lambda>n. if n = ustr ''Alex'' then Inr (Some (ustr ''p42'')) else Inr None),
       get_person_value =
         (\<lambda>p f. if p = Some (ustr ''p42'') \<and> f = ustr ''user_id''
                then Inr (Some (ustr ''42'')) else Inr None),
       get_person_value_default =
         (\<lambda>p f d. if p = Some (ustr ''p42'') \<and> f = ustr ''nickname''
                  then Inr (ustr ''Alex'') else Inr d),
       get_person_id = (\<lambda>p n. if n = 42 then Inr (Some (ustr ''p42'')) else Inr None),
       get_stream_by_user_id =
         (\<lambda>u p. if u = ustr ''42'' then Inr (Some (Stream (ustr ''s42''))) else Inr None),
       text_to_stream = (\<lambda>t s ty st. Inr True),
       get_private_streams = (\<lambda>p. Inr [Stream (ustr ''s42'')]),
       get_stream_info =
         (\<lambda>s. Inr [ustr ''user_id'' \<mapsto> ustr ''42'', ustr ''user_name'' \<mapsto> ustr ''Alex'']) \<rparr>"

definition demo_config :: "bool \<Rightarrow> config" where
  "demo_config enabled =
     \<lparr> general_enabled = enabled,
       general_cooldown_seconds = 300,
       smart_chat_only_known_users = True,
       messages_default_greeting = ustr ''Hi {nickname}!'',
       messages_random_greetings = [] \<rparr>"

definition demo_command :: command where
  "demo_command = \<lparr> matched_target_id = ustr ''42'', matched_message = None \<rparr>"


text \<open>A configuration with one random greeting that names the user twice.\<close>

definition greetings_config :: config where
  "greetings_config =
     \<lparr> general_enabled = True,
       general_cooldown_seconds = 300,
       smart_chat_only_known_users = True,
       messages_default_greeting = ustr ''Hi {nickname}!'',
       messages_random_greetings = [ustr ''Hey {nickname}, {nickname}!''] \<rparr>"

text \<open>The same host with 21 registered streams.\<close>

definition crowd_env :: "real \<Rightarrow> env" where
  "crowd_env t =
     (alex_env t)\<lparr>get_private_streams := (\<lambda>p. Inr (replicate 21 (Stream (ustr ''s42''))))\<rparr>"

section \<open>Binary64 rounding\<close>

lemma halvings_lower: "1 \<le> y \<Longrightarrow> 2 ^ halvings y \<le> y"
proof (induction y rule: halvings.induct)
  case (1 y)
  show ?case
  proof (cases "y < 2")
    case True
    then show ?thesis using 1 by (subst halvings.simps) simp
  next
    case False
    then have "2 ^ halvings (y / 2) \<le> y / 2" using 1 by simp
    then show ?thesis using False by (subst halvings.simps) simp
  qed
qed

lemma doublings_lower: "0 < y \<Longrightarrow> y < 1 \<Longrightarrow> 1 \<le> y * 2 ^ doublings y"
proof (induction y rule: doublings.induct)
  case (1 y)
  have step: "doublings y = Suc (doublings (2 * y))"
    using 1 by (subst doublings.simps) simp
  show ?case
  proof (cases "1 \<le> 2 * y")
    case True
    then have "doublings (2 * y) = 0" by (subst doublings.simps) simp
    then show ?thesis using True step by simp
  next
    case False
    then have "1 \<le> 2 * y * 2 ^ doublings (2 * y)" using 1 by simp
    then show ?thesis using step by (simp add: mult.assoc)
  qed
qed

lemma binade_lower: "x \<noteq> 0 \<Longrightarrow> 2 powi binade x \<le> \<bar>x\<bar>"
proof (cases "1 \<le> \<bar>x\<bar>")
  case True
  then show ?thesis by (simp add: binade_def halvings_lower)
next
  case False
  assume "x \<noteq> 0"
  then have "1 \<le> \<bar>x\<bar> * 2 ^ doublings \<bar>x\<bar>"
    using False by (intro doublings_lower) simp_all
  then show ?thesis
    using False by (simp add: binade_def power_int_minus field_simps)
qed

lemma round_half_even_int: "round_half_even (of_int n) = n"
  by (simp add: round_half_even_def)

lemma round64_exact:
  assumes x: "x = of_int m * 2 powi k" and m: "\<bar>m\<bar> < 2 ^ 53" and k: "- 1074 \<le> k"
  shows "round64 x = x"
proof (cases "x = 0")
  case True
  then show ?thesis by (simp add: round64_def)
next
  case False
  define K where "K = max (- 1074) (binade x - 52)"
  have "2 powi binade x \<le> \<bar>x\<bar>" using False by (rule binade_lower)
  also have "\<bar>x\<bar> = of_int \<bar>m\<bar> * 2 powi k"
    by (simp add: x abs_mult power_int_abs)
  also have "\<dots> < 2 ^ 53 * 2 powi k"
  proof -
    have "(of_int \<bar>m\<bar> :: real) < of_int (2 ^ 53)" using m by (simp only: of_int_less_iff)
    then show ?thesis by simp
  qed
  also have "\<dots> = 2 powi (53 + k)"
    by (simp add: power_int_add)
  finally have lt: "(2 :: real) powi binade x < 2 powi (53 + k)" .
  have "binade x < 53 + k"
  proof (rule ccontr)
    assume "\<not> binade x < 53 + k"
    then have "53 + k \<le> binade x" by simp
    then have "(2 :: real) powi (53 + k) \<le> 2 powi binade x"
      by (intro power_int_increasing) simp_all
    with lt show False by simp
  qed
  then have Kk: "K \<le> k" using k by (simp add: K_def)
  then obtain d where d: "k = K + int d"
    by (metis zle_iff_zadd)
  have "x / 2 powi K = of_int m * 2 ^ d"
    by (simp add: x d power_int_add)
  also have "\<dots> = of_int (m * 2 ^ d)" by simp
  finally have "round_half_even (x / 2 powi K) = m * 2 ^ d"
    by (simp only: round_half_even_int)
  then have "round64 x = of_int (m * 2 ^ d) * 2 powi K"
    using False by (simp add: round64_def K_def [symmetric] Let_def)
  also have "\<dots> = x" by (simp add: x d power_int_add)
  finally show ?thesis .
qed

lemma to_float_exact:
  assumes x: "x = of_int m * 2 powi k" and m: "\<bar>m\<bar> < 2 ^ 53"
    and k: "- 1074 \<le> k" "k \<le> 971"
  shows "to_float x = Finite x"
proof -
  have r: "round64 x = x"
    using x m k(1) by (rule round64_exact)
  have "\<bar>x\<bar> = of_int \<bar>m\<bar> * 2 powi k"
    by (simp add: x abs_mult power_int_abs)
  also have "\<dots> < 2 ^ 53 * 2 powi k"
  proof -
    have "(of_int \<bar>m\<bar> :: real) < of_int (2 ^ 53)" using m by (simp only: of_int_less_iff)
    then show ?thesis by simp
  qed
  also have "\<dots> = 2 powi (53 + k)"
    by (simp add: power_int_add)
  also have "\<dots> \<le> 2 powi 1024"
    using k(2) by (intro power_int_increasing) simp_all
  finally have "\<bar>x\<bar> < 2 powi 1024" .
  then have "\<bar>x\<bar> < 2 ^ 1024" by simp
  then have "\<not> 2 ^ 1024 \<le> x" "\<not> x \<le> - (2 ^ 1024)" by linarith+
  then show ?thesis by (simp add: to_float_def r)
qed

lemma is_float64_int: "\<bar>n\<bar> < 2 ^ 53 \<Longrightarrow> is_float64 (of_int n)"
  unfolding is_float64_def by (rule to_float_exact [where m = n and k = 0]) simp_all

lemma is_float64_half: "\<bar>n\<bar> < 2 ^ 53 \<Longrightarrow> is_float64 (of_int n / 2)"
  unfolding is_float64_def by (rule to_float_exact [where m = n and k = "- 1"]) simp_all




section \<open>The cooldown tracker\<close>

lemma can_send_value:
  "fst (can_send e u c w) =
     float_ge_int (to_float (clock e (ticks w) - cooldowns_get w u)) c"
  by (simp add: can_send_def time_time_def float_sub_def)

lemma can_send_world: "snd (can_send e u c w) = w\<lparr>ticks := Suc (ticks w)\<rparr>"
  by (simp add: can_send_def time_time_def)

lemma get_remaining_time_value:
  "fst (get_remaining_time e u c w) =
     (case float_of_int c of
        Inl ex \<Rightarrow> Inl ex
      | Inr fc \<Rightarrow>
          (case int_of_float (float_sub fc (to_float (clock e (ticks w) - cooldowns_get w u))) of
             Inl ex \<Rightarrow> Inl ex
           | Inr n \<Rightarrow> Inr (max 0 n)))"
  by (simp add: get_remaining_time_def time_time_def float_sub_def Let_def split: sum.split)

lemma get_remaining_time_world:
  "snd (get_remaining_time e u c w) = w\<lparr>ticks := Suc (ticks w)\<rparr>"
  by (simp add: get_remaining_time_def time_time_def Let_def split: sum.split)

lemma float_1762214400: "to_float 1762214400 = Finite 1762214400"
  using is_float64_int [of 1762214400] by (simp add: is_float64_def)







lemma float_half: "to_float (1 / 2) = Finite (1 / 2)"
  using is_float64_half [of 1] by (simp add: is_float64_def)

lemma float_300: "float_of_int 300 = Inr 300"
  using is_float64_int [of 300] by (simp add: is_float64_def float_of_int_def)

lemma float_599_half: "to_float (599 / 2) = Finite (599 / 2)"
  using is_float64_half [of 599] by (simp add: is_float64_def)

lemma float_2000000000: "float_of_int 2000000000 = Inr 2000000000"
  using is_float64_int [of 2000000000] by (simp add: is_float64_def float_of_int_def)

lemma float_237785600: "to_float 237785600 = Finite 237785600"
  using is_float64_int [of 237785600] by (simp add: is_float64_def)

text \<open>
  C2: the code misses the claim. \<open>int(remaining)\<close> drops the fraction where the claim
  rounds up: half a second after a send recorded at 1762214400, with a cooldown of 300
  seconds, \<open>get_remaining_time\<close> answers 299 where \<open>max(0, ceil(C - elapsed))\<close> is 300.
  And a user without a record is treated as last contacted at time 0: with the clock at
  1762214400 and a cooldown of 2000000000 seconds the answer is 237785600, not 0.
\<close>

theorem get_remaining_time_truncates:
  "fst (get_remaining_time (quiet_env (1762214400 + 1 / 2)) (ustr ''42'') 300
          (world_with (ustr ''42'') 1762214400)) = Inr 299
   \<and> max 0 \<lceil>real_of_int 300 - ((1762214400 + 1 / 2) - 1762214400)\<rceil> = (300 :: int)
   \<and> cooldowns fresh_world (ustr ''42'') = None
   \<and> fst (get_remaining_time (quiet_env 1762214400) (ustr ''42'') 2000000000 fresh_world) =
       Inr 237785600"
proof -
  have 1: "fst (get_remaining_time (quiet_env (1762214400 + 1 / 2)) (ustr ''42'') 300
          (world_with (ustr ''42'') 1762214400)) = Inr 299"
    by (simp add: get_remaining_time_value cooldowns_get_def quiet_env_def world_with_def
        float_half float_300 float_599_half float_sub_def int_of_float_def py_int_of_float_def)
  have 2: "max 0 \<lceil>real_of_int 300 - ((1762214400 + 1 / 2) - 1762214400)\<rceil> = (300 :: int)"
    by simp
  have 3: "cooldowns fresh_world (ustr ''42'') = None"
    by (simp add: fresh_world_def)
  have 4: "fst (get_remaining_time (quiet_env 1762214400) (ustr ''42'') 2000000000 fresh_world) =
       Inr 237785600"
    by (simp add: get_remaining_time_value cooldowns_get_def quiet_env_def fresh_world_def
        float_1762214400 float_2000000000 float_237785600 float_sub_def int_of_float_def
        py_int_of_float_def)
  from 1 2 3 4 show ?thesis by blast
qed

lemma cooldown_check_cases:
  "cooldown_check e u cg w =
     (case cg of
        None \<Rightarrow> (None, w)
      | Some cfg \<Rightarrow>
          if fst (can_send e u (general_cooldown_seconds cfg) w)
          then (None, w\<lparr>ticks := Suc (ticks w)\<rparr>)
          else (Some (False,
                  case fst (get_remaining_time e u (general_cooldown_seconds cfg)
                         (w\<lparr>ticks := Suc (ticks w)\<rparr>)) of
                    Inl ex \<Rightarrow> text_send_error ex
                  | Inr n \<Rightarrow> text_cooling_down n),
                w\<lparr>ticks := Suc (Suc (ticks w))\<rparr>))"
proof (cases cg)
  case None
  then show ?thesis by (simp add: cooldown_check_def)
next
  case (Some cfg)
  let ?c = "general_cooldown_seconds cfg"
  let ?w1 = "w\<lparr>ticks := Suc (ticks w)\<rparr>"
  obtain ok w1 where cs: "can_send e u ?c w = (ok, w1)"
    by (metis prod.exhaust)
  then have w1: "w1 = ?w1"
    using can_send_world [of e u ?c w] by simp
  obtain r w2 where g: "get_remaining_time e u ?c ?w1 = (r, w2)"
    by (metis prod.exhaust)
  then have w2: "w2 = w\<lparr>ticks := Suc (Suc (ticks w))\<rparr>"
    using get_remaining_time_world [of e u ?c ?w1] by simp
  show ?thesis
    using Some cs g w1 w2 by (cases r) (simp_all add: cooldown_check_def Let_def)
qed

text \<open>
  C3: the code misses the claim. In one state and at one clock reading, 299.5 seconds
  after a recorded send and with a cooldown of 300 seconds, \<open>can_send\<close> is false while
  \<open>get_remaining_time\<close> is 0, and \<open>send_private_message\<close> refuses with the text
  "cooling down, still 0 seconds to wait".
\<close>

theorem can_send_remaining_disagree:
  "\<not> fst (can_send (quiet_env (1762214699 + 1 / 2)) (ustr ''42'') 300
          (world_with (ustr ''42'') 1762214400))
   \<and> fst (get_remaining_time (quiet_env (1762214699 + 1 / 2)) (ustr ''42'') 300
          (world_with (ustr ''42'') 1762214400)) = Inr 0
   \<and> fst (send_private_message (quiet_env (1762214699 + 1 / 2)) (ustr ''42'') (ustr ''hi'')
          (ustr ''qq'') (Some (demo_config True)) (world_with (ustr ''42'') 1762214400)) =
       (False,
        [0x51B7, 0x5374, 0x4E2D, 0xFF0C, 0x8FD8, 0x9700, 0x7B49, 0x5F85, 0x20, 0x30, 0x20, 0x79D2])"
proof -
  let ?e = "quiet_env (1762214699 + 1 / 2)"
  let ?w = "world_with (ustr ''42'') 1762214400"
  have el: "clock ?e n - cooldowns_get (?w\<lparr>ticks := k\<rparr>) (ustr ''42'') = 599 / 2" for n k
    by (simp add: quiet_env_def world_with_def cooldowns_get_def)
  have el0: "clock ?e (ticks ?w) - cooldowns_get ?w (ustr ''42'') = 599 / 2"
    by (simp add: quiet_env_def world_with_def cooldowns_get_def)
  have 1: "\<not> fst (can_send ?e (ustr ''42'') 300 ?w)"
    unfolding can_send_value el0 float_599_half by (simp add: float_ge_int_def)
  have 2: "fst (get_remaining_time ?e (ustr ''42'') 300 w') = Inr 0"
    if "clock ?e (ticks w') - cooldowns_get w' (ustr ''42'') = 599 / 2" for w'
    unfolding get_remaining_time_value that float_599_half float_300
    by (simp add: float_half float_sub_def int_of_float_def py_int_of_float_def)
  have r: "fst (get_remaining_time ?e (ustr ''42'') 300 (?w\<lparr>ticks := Suc (ticks ?w)\<rparr>)) = Inr 0"
    by (rule 2) (rule el)
  have c: "general_cooldown_seconds (demo_config True) = 300"
    by (simp add: demo_config_def)
  have cc: "fst (cooldown_check ?e (ustr ''42'') (Some (demo_config True)) ?w) =
      Some (False, text_cooling_down 0)"
    unfolding cooldown_check_cases option.case c using 1 r by simp
  obtain x w' where p: "cooldown_check ?e (ustr ''42'') (Some (demo_config True)) ?w = (x, w')"
    by (metis prod.exhaust)
  with cc have x: "x = Some (False, text_cooling_down 0)" by simp
  have 3: "fst (send_private_message ?e (ustr ''42'') (ustr ''hi'') (ustr ''qq'')
      (Some (demo_config True)) ?w) = (False, text_cooling_down 0)"
    unfolding send_private_message_def p x by simp
  have 4: "text_cooling_down 0 = [0x51B7, 0x5374, 0x4E2D, 0xFF0C, 0x8FD8, 0x9700, 0x7B49, 0x5F85, 0x20, 0x30, 0x20, 0x79D2]"
    by (simp add: text_cooling_down_def str_of_int_def)
      (subst show_nat.simps, simp)
  from 1 2 [OF el0] 3 4 show ?thesis by simp
qed

section \<open>Sending a private message\<close>

lemma cooldown_check_cooldowns: "cooldowns (snd (cooldown_check e u cg w)) = cooldowns w"
  by (simp add: cooldown_check_cases split: option.split)

lemma cooldown_check_refuses:
  "(fst (cooldown_check e u cg w) = None) = (\<not> cooldown_active e u cg w)"
  by (simp add: cooldown_check_cases cooldown_active_def split: option.split)

lemma cooldown_check_fails:
  "fst (cooldown_check e u cg w) = Some r \<Longrightarrow> \<not> fst r"
  by (auto simp add: cooldown_check_cases split: option.splits if_splits)

lemma cooldown_check_ticks:
  "fst (cooldown_check e u cg w) = None \<Longrightarrow>
   ticks (snd (cooldown_check e u cg w)) = ticks w + (case cg of None \<Rightarrow> 0 | Some c \<Rightarrow> 1)"
  by (auto simp add: cooldown_check_cases split: option.splits if_splits)

lemma send_success_iff:
  "fst (fst (send_private_message e u m p cg w)) =
     (\<not> cooldown_active e u cg w \<and> delivery_succeeds e u m p)"
proof (cases "cooldown_check e u cg w")
  case (Pair r w1)
  show ?thesis
  proof (cases r)
    case None
    have "\<not> cooldown_active e u cg w"
      using cooldown_check_refuses [of e u cg w] Pair None by simp
    then show ?thesis
      using Pair None
      by (simp add: send_private_message_def delivery_succeeds_def Let_def
          split: sum.split option.split)
  next
    case (Some refusal)
    have "cooldown_active e u cg w"
      using cooldown_check_refuses [of e u cg w] Pair Some by simp
    moreover have "\<not> fst refusal"
      using cooldown_check_fails [of e u cg w refusal] Pair Some by simp
    ultimately show ?thesis
      using Pair Some by (simp add: send_private_message_def)
  qed
qed

lemma delivery_stream: "delivery_succeeds e u m p \<Longrightarrow> stream_exists e u p"
  by (simp add: delivery_succeeds_def stream_exists_def split: sum.splits option.splits)

text \<open>
  C4: \<open>send_private_message\<close> succeeds exactly when no cooldown is active and the delivery
  succeeds (a stream is found and the transport reports success). In every other run
  (cooldown active, no stream, the transport reporting failure, an exception in the stream
  lookup or in the delivery) the result is a failure and the cooldown records of all
  users are as before; on success the record of the target user, and only that one, is
  set to the reading of the clock taken by \<open>record_send\<close>.
\<close>

theorem send_private_message_cooldown:
  "fst (fst (send_private_message e u m p cg w)) =
     (\<not> cooldown_active e u cg w \<and> delivery_succeeds e u m p)
   \<and> cooldowns (snd (send_private_message e u m p cg w)) =
     (if fst (fst (send_private_message e u m p cg w))
      then (cooldowns w)(u \<mapsto> clock e (ticks w + (case cg of None \<Rightarrow> 0 | Some c \<Rightarrow> 1)))
      else cooldowns w)"
proof (cases "cooldown_check e u cg w")
  case (Pair r w1)
  have cd: "cooldowns w1 = cooldowns w"
    using cooldown_check_cooldowns [of e u cg w] Pair by simp
  show ?thesis
  proof (cases r)
    case None
    have act: "\<not> cooldown_active e u cg w"
      using cooldown_check_refuses [of e u cg w] Pair None by simp
    have tk: "ticks w1 = ticks w + (case cg of None \<Rightarrow> 0 | Some c \<Rightarrow> 1)"
      using cooldown_check_ticks [of e u cg w] Pair None by simp
    show ?thesis
      using Pair None act cd tk
      by (simp add: send_private_message_def delivery_succeeds_def host_call_def
          record_send_def time_time_def Let_def split: sum.split option.split)
  next
    case (Some refusal)
    have act: "cooldown_active e u cg w"
      using cooldown_check_refuses [of e u cg w] Pair Some by simp
    have "\<not> fst refusal"
      using cooldown_check_fails [of e u cg w refusal] Pair Some by simp
    then show ?thesis
      using Pair Some act cd by (simp add: send_private_message_def)
  qed
qed

text \<open>
  C9: called without a \<open>config_getter\<close>, \<open>send_private_message\<close> makes no cooldown check:
  its result is the same whatever the cooldown records hold, it goes straight to the
  stream lookup, it succeeds exactly when the delivery does, and on success it still
  records the send (with the first reading of the clock, none having been taken before).
\<close>

theorem send_without_config_getter:
  "fst (send_private_message e u m p None (w\<lparr>cooldowns := cd\<rparr>)) =
     fst (send_private_message e u m p None w)
   \<and> fst (fst (send_private_message e u m p None w)) = delivery_succeeds e u m p
   \<and> take (Suc (length (calls w))) (calls (snd (send_private_message e u m p None w))) =
       calls w @ [GetStreamByUserId u p]
   \<and> cooldowns (snd (send_private_message e u m p None w)) =
       (if delivery_succeeds e u m p then (cooldowns w)(u \<mapsto> clock e (ticks w))
        else cooldowns w)"
  by (simp add: send_private_message_def cooldown_check_def delivery_succeeds_def host_call_def
      record_send_def time_time_def Let_def split: sum.split option.split)

section \<open>Known users\<close>

text \<open>
  C5: \<open>is_user_known\<close> always returns (no exception leaves it), and it returns true
  exactly when the profile lookup yields an entry or a conversation stream exists; a
  failing or raising branch counts as "no" for that branch only.
\<close>

theorem is_user_known_or:
  "fst (is_user_known e platform u w) =
     Inr (profile_found e platform u \<or> stream_exists e u platform)"
  by (auto simp add: is_user_known_def profile_known_def profile_found_def stream_exists_def
      Let_def split: sum.splits option.splits)

lemma stream_known: "stream_exists e u p \<Longrightarrow> fst (is_user_known e p u w) = Inr True"
  by (auto simp add: is_user_known_def stream_exists_def Let_def
      split: sum.splits option.splits prod.splits)

section \<open>The command entry point\<close>

lemma command_success_delivery:
  assumes "fst (fst (PrivateChatCommand_execute e cfg m w))"
  shows "\<exists>msg. delivery_succeeds e (matched_target_id m) msg DEFAULT_PLATFORM"
proof -
  obtain nickname w1 where n:
    "lookup_nickname e DEFAULT_PLATFORM (matched_target_id m) text_user w = (nickname, w1)"
    by (cases "lookup_nickname e DEFAULT_PLATFORM (matched_target_id m) text_user w")
  define msg where "msg =
    (case matched_message m of
       None \<Rightarrow> get_greeting_message e cfg nickname
     | Some c \<Rightarrow> if c \<noteq> [] then str_replace c nickname_token nickname
                else get_greeting_message e cfg nickname)"
  have "fst (fst (send_private_message e (matched_target_id m) msg DEFAULT_PLATFORM
          (Some cfg) w1))"
    using assms n
    by (simp add: PrivateChatCommand_execute_def Let_def msg_def
        split: if_splits prod.splits)
  then have "delivery_succeeds e (matched_target_id m) msg DEFAULT_PLATFORM"
    by (simp add: send_success_iff)
  then show ?thesis ..
qed

lemma command_success_known:
  assumes "fst (fst (PrivateChatCommand_execute e cfg m w))"
  shows "fst (is_user_known e DEFAULT_PLATFORM (matched_target_id m) w') = Inr True"
proof -
  from command_success_delivery [OF assms]
  obtain msg where "delivery_succeeds e (matched_target_id m) msg DEFAULT_PLATFORM" ..
  then show ?thesis by (intro stream_known delivery_stream)
qed

lemma greeting_switches:
  "get_greeting_message e (cfg\<lparr>general_enabled := b, smart_chat_only_known_users := k\<rparr>) n =
   get_greeting_message e cfg n"
  by (simp add: get_greeting_message_def Let_def)

lemma send_switches:
  "send_private_message e u msg p
     (Some (cfg\<lparr>general_enabled := b, smart_chat_only_known_users := k\<rparr>)) w =
   send_private_message e u msg p (Some cfg) w"
  by (simp add: send_private_message_def cooldown_check_def)

lemma command_switches:
  "PrivateChatCommand_execute e
     (cfg\<lparr>general_enabled := b, smart_chat_only_known_users := k\<rparr>) m w =
   PrivateChatCommand_execute e cfg m w"
  unfolding PrivateChatCommand_execute_def greeting_switches send_switches ..

lemma alex_nickname:
  "lookup_nickname (alex_env t) DEFAULT_PLATFORM (ustr ''42'') text_user w =
     (ustr ''Alex'',
      host_call (GetPersonValue (Some (ustr ''p42'')) (ustr ''nickname''))
        (host_call (GetPersonId DEFAULT_PLATFORM 42) w))"
  by (simp add: lookup_nickname_def alex_env_def Let_def)

lemma alex_delivery: "delivery_succeeds (alex_env t) (ustr ''42'') msg p"
  by (simp add: delivery_succeeds_def alex_env_def)

lemma alex_command_success:
  "fst (fst (PrivateChatCommand_execute (alex_env 1762214400) (demo_config b) demo_command
     fresh_world))"
proof -
  define w1 where "w1 =
    host_call (GetPersonValue (Some (ustr ''p42'')) (ustr ''nickname''))
      (host_call (GetPersonId DEFAULT_PLATFORM 42) fresh_world)"
  define msg where
    "msg = get_greeting_message (alex_env 1762214400) (demo_config b) (ustr ''Alex'')"
  have "\<not> cooldown_active (alex_env 1762214400) (ustr ''42'') (Some (demo_config b)) w1"
    by (simp add: cooldown_active_def can_send_value cooldowns_get_def host_call_def
        fresh_world_def demo_config_def alex_env_def w1_def float_1762214400 float_ge_int_def)
  then have s: "fst (fst (send_private_message (alex_env 1762214400) (ustr ''42'') msg
      DEFAULT_PLATFORM (Some (demo_config b)) w1))"
    by (simp add: send_success_iff alex_delivery)
  obtain ok reply w2 where sp:
    "send_private_message (alex_env 1762214400) (ustr ''42'') msg DEFAULT_PLATFORM
       (Some (demo_config b)) w1 = ((ok, reply), w2)"
    by (metis prod.exhaust)
  with s have ok by simp
  have ne: "ustr ''42'' \<noteq> []" by (simp add: ustr_def)
  show ?thesis
    unfolding PrivateChatCommand_execute_def demo_command_def
    using ne sp \<open>ok\<close>
    by (simp add: alex_nickname Let_def w1_def [symmetric] msg_def [symmetric])
qed

text \<open>
  C8, as stated, fails in its last part: no run of the command succeeds for a target that
  \<open>is_user_known\<close> classifies as unknown, since a successful send needs the conversation
  stream that makes the target known.
\<close>

theorem command_unknown_counterexample:
  "\<not> (\<exists>e cfg m w.
        fst (fst (PrivateChatCommand_execute e cfg m w)) \<and>
        fst (is_user_known e DEFAULT_PLATFORM (matched_target_id m) w) = Inr False)"
proof
  assume "\<exists>e cfg m w.
        fst (fst (PrivateChatCommand_execute e cfg m w)) \<and>
        fst (is_user_known e DEFAULT_PLATFORM (matched_target_id m) w) = Inr False"
  then obtain e cfg m w where
    ok: "fst (fst (PrivateChatCommand_execute e cfg m w))" and
    un: "fst (is_user_known e DEFAULT_PLATFORM (matched_target_id m) w) = Inr False"
    by blast
  from command_success_known [OF ok, of w] un show False by simp
qed

text \<open>
  C8 (amended): the outcome of the command (result and state) does not depend on
  \<open>general.enabled\<close> or \<open>smart_chat.only_known_users\<close>; a send can succeed with the
  kill-switch off and \<open>only_known_users\<close> on; and a target the command's send succeeds
  for is one \<open>is_user_known\<close> classifies as known on the command's platform.
\<close>

theorem command_ignores_switches:
  "PrivateChatCommand_execute e
     (cfg\<lparr>general_enabled := b, smart_chat_only_known_users := k\<rparr>) m w =
   PrivateChatCommand_execute e cfg m w
   \<and> (\<exists>e' cfg' m' w'.
        \<not> general_enabled cfg' \<and> smart_chat_only_known_users cfg' \<and>
        fst (fst (PrivateChatCommand_execute e' cfg' m' w')))
   \<and> (fst (fst (PrivateChatCommand_execute e cfg m w)) \<longrightarrow>
        fst (is_user_known e DEFAULT_PLATFORM (matched_target_id m) w) = Inr True)"
proof (intro conjI impI)
  show "PrivateChatCommand_execute e
     (cfg\<lparr>general_enabled := b, smart_chat_only_known_users := k\<rparr>) m w =
   PrivateChatCommand_execute e cfg m w"
    by (rule command_switches)
next
  have "\<not> general_enabled (demo_config False)" "smart_chat_only_known_users (demo_config False)"
    by (simp_all add: demo_config_def)
  with alex_command_success [of False]
  show "\<exists>e' cfg' m' w'.
        \<not> general_enabled cfg' \<and> smart_chat_only_known_users cfg' \<and>
        fst (fst (PrivateChatCommand_execute e' cfg' m' w'))"
    by blast
next
  assume "fst (fst (PrivateChatCommand_execute e cfg m w))"
  then show "fst (is_user_known e DEFAULT_PLATFORM (matched_target_id m) w) = Inr True"
    by (rule command_success_known)
qed

theorem command_ignores_switches_witness:
  "fst (fst (PrivateChatCommand_execute (alex_env 1762214400) (demo_config False) demo_command
     fresh_world))
   \<and> fst (is_user_known (alex_env 1762214400) DEFAULT_PLATFORM (matched_target_id demo_command)
       fresh_world) = Inr True"
  using command_ignores_switches [where e = "alex_env 1762214400" and cfg = "demo_config False"
      and m = demo_command and w = fresh_world] alex_command_success [of False]
  by simp

section \<open>The autonomous trigger\<close>
















text \<open>
  The first step of the trigger: a disabled feature fails at once, before any lookup.
\<close>

lemma execute_when_disabled:
  "\<not> general_enabled cfg \<Longrightarrow>
   ProactivePrivateChatAction_execute e cfg a w = (Inr (False, text_disabled), w)"
  by (simp add: ProactivePrivateChatAction_execute_def)







section \<open>Greeting selection\<close>

lemma replace_scan_match:
  assumes "old \<noteq> []" and "take (length old) (c # cs) = old"
  shows "replace_scan old new (c # cs) = new @ replace_scan old new (drop (length old) (c # cs))"
  by (subst replace_scan.simps(2)) (simp only: assms if_True simp_thms)

lemma replace_scan_step:
  assumes "take (length old) (c # cs) \<noteq> old"
  shows "replace_scan old new (c # cs) = c # replace_scan old new cs"
  by (subst replace_scan.simps(2)) (simp only: assms if_False simp_thms)

lemma replace_scan_at_token:
  assumes "old \<noteq> []"
  shows "replace_scan old new (old @ post) = new @ replace_scan old new post"
proof -
  obtain c cs where cons: "old @ post = c # cs"
    using assms by (cases old) auto
  have "take (length old) (c # cs) = old" "drop (length old) (c # cs) = post"
    unfolding cons [symmetric] by simp_all
  with replace_scan_match [OF assms, of c cs new] show ?thesis
    unfolding cons by simp
qed

lemma take_append_fits: "n \<le> length xs \<Longrightarrow> take n (xs @ zs) = take n xs"
  by simp

lemma drop_append_fits: "n \<le> length xs \<Longrightarrow> drop n (xs @ zs) = drop n xs @ zs"
  by simp

lemma take_full_length:
  assumes "take (length ys) xs = ys"
  shows "length ys \<le> length xs"
proof -
  have "length (take (length ys) xs) = length ys"
    by (simp only: assms)
  then show ?thesis by simp
qed

lemma no_early_match:
  assumes border: "hd old \<notin> set (tl old)" and ne: "old \<noteq> []"
    and nomatch: "take (length old) (c # cs) \<noteq> old"
  shows "take (length old) ((c # cs) @ old @ post) \<noteq> old"
proof (cases "length old \<le> length (c # cs)")
  case True
  then have "take (length old) ((c # cs) @ old @ post) = take (length old) (c # cs)"
    by (rule take_append_fits)
  then show ?thesis using nomatch by metis
next
  case False
  then have short: "length (c # cs) < length old" by simp
  show ?thesis
  proof
    assume eq: "take (length old) ((c # cs) @ old @ post) = old"
    let ?k = "length (c # cs)"
    have "old ! ?k = (take (length old) ((c # cs) @ old @ post)) ! ?k"
      by (simp only: eq)
    also have "\<dots> = ((c # cs) @ old @ post) ! ?k"
      using short by (rule nth_take)
    also have "\<dots> = (old @ post) ! 0"
      using nth_append_length_plus [of "c # cs" "old @ post" 0] by simp
    also have "\<dots> = hd old"
      using ne by (cases old) simp_all
    finally have "old ! ?k = hd old" .
    moreover have "old ! ?k \<in> set (tl old)"
    proof -
      obtain x xs where old: "old = x # xs" using ne by (cases old) auto
      have "?k - 1 < length xs" using short old by simp
      then have "xs ! (?k - 1) \<in> set xs" by (rule nth_mem)
      then show ?thesis unfolding old by simp
    qed
    ultimately show False using border by simp
  qed
qed

lemma replace_scan_occurrence:
  assumes border: "hd old \<notin> set (tl old)" and ne: "old \<noteq> []"
  shows "replace_scan old new (pre @ old @ post) =
         replace_scan old new pre @ new @ replace_scan old new post"
  using assms
proof (induction old new pre rule: replace_scan.induct)
  case (1 old new)
  have "replace_scan old new [] = []" by (rule replace_scan.simps(1))
  then show ?case using "1.prems"(2) by (simp add: replace_scan_at_token)
next
  case (2 old new c cs)
  note ne = "2.prems"(2) and border = "2.prems"(1)
  show ?case
  proof (cases "take (length old) (c # cs) = old")
    case True
    let ?rest = "drop (length old) (c # cs)"
    have len: "length old \<le> length (c # cs)"
      using True by (rule take_full_length)
    have tk: "take (length old) (c # (cs @ old @ post)) = old"
      using take_append_fits [OF len, of "old @ post", unfolded append_Cons] True by metis
    have dr: "drop (length old) (c # (cs @ old @ post)) = ?rest @ old @ post"
      using drop_append_fits [OF len, of "old @ post", unfolded append_Cons] .
    have ih: "replace_scan old new (?rest @ old @ post) =
        replace_scan old new ?rest @ new @ replace_scan old new post"
      using "2.IH"(1) ne True border by blast
    have "replace_scan old new ((c # cs) @ old @ post) =
        new @ replace_scan old new (?rest @ old @ post)"
      using replace_scan_match [OF ne tk, of new] by (simp only: dr append_Cons)
    also have "\<dots> = new @ replace_scan old new ?rest @ new @ replace_scan old new post"
      by (simp only: ih)
    also have "\<dots> = replace_scan old new (c # cs) @ new @ replace_scan old new post"
      using replace_scan_match [OF ne True, of new] by (simp only: append_assoc)
    finally show ?thesis .
  next
    case False
    have nm: "take (length old) (c # (cs @ old @ post)) \<noteq> old"
      using no_early_match [OF border ne False, of post, unfolded append_Cons] .
    have ih: "replace_scan old new (cs @ old @ post) =
        replace_scan old new cs @ new @ replace_scan old new post"
      using "2.IH"(2) ne False border by blast
    have "replace_scan old new ((c # cs) @ old @ post) =
        c # replace_scan old new (cs @ old @ post)"
      using replace_scan_step [OF nm, of new] by (simp only: append_Cons)
    also have "\<dots> = (c # replace_scan old new cs) @ new @ replace_scan old new post"
      by (simp only: ih append_Cons)
    also have "\<dots> = replace_scan old new (c # cs) @ new @ replace_scan old new post"
      by (simp only: replace_scan_step [OF False])
    finally show ?thesis .
  qed
qed

lemma replace_scan_absent: "\<not> occurs old s \<Longrightarrow> replace_scan old new s = s"
proof (induction s)
  case Nil
  show ?case by (rule replace_scan.simps(1))
next
  case (Cons c cs)
  then have "take (length old) (c # cs) \<noteq> old" and "\<not> occurs old cs"
    by simp_all
  with Cons.IH show ?case
    by (simp add: replace_scan_step)
qed

lemma nickname_token_border:
  "nickname_token \<noteq> []" "hd nickname_token \<notin> set (tl nickname_token)"
  by (simp_all add: nickname_token_def ustr_def)


lemma str_replace_token:
  "str_replace s nickname_token new = replace_scan nickname_token new s"
  by (simp add: str_replace_def nickname_token_border)

text \<open>
  C7: with an empty list of random greetings, \<open>get_greeting_message\<close> uses the default
  template whatever the random draw. With a non-empty list it uses the default when the
  draw of \<open>random.random()\<close> is at most 0.3 (three tenths of the unit interval the draw
  is uniform on) and otherwise the list element at the index \<open>random.choice\<close> drew, an
  index within the list. In every case the result is the template with \<open>{nickname}\<close>
  replaced: at every occurrence of the token the nickname is written and the text before
  and after it is treated the same way, and text without the token is returned as it is.
\<close>

theorem get_greeting_message_spec:
  "(messages_random_greetings cfg = [] \<longrightarrow>
      get_greeting_message e cfg nick =
        str_replace (messages_default_greeting cfg) nickname_token nick)
   \<and> (messages_random_greetings cfg \<noteq> [] \<longrightarrow>
      get_greeting_message e cfg nick =
        str_replace
          (if random_random e \<le> 3 / 10 then messages_default_greeting cfg
           else messages_random_greetings cfg !
                  (random_index e mod length (messages_random_greetings cfg)))
          nickname_token nick
      \<and> random_index e mod length (messages_random_greetings cfg)
          < length (messages_random_greetings cfg))
   \<and> (\<forall>pre post.
        str_replace (pre @ nickname_token @ post) nickname_token nick =
          str_replace pre nickname_token nick @ nick @ str_replace post nickname_token nick)
   \<and> (\<forall>s. \<not> occurs nickname_token s \<longrightarrow> str_replace s nickname_token nick = s)"
proof (intro conjI impI allI)
  assume "messages_random_greetings cfg = []"
  then show "get_greeting_message e cfg nick =
      str_replace (messages_default_greeting cfg) nickname_token nick"
    by (simp add: get_greeting_message_def)
next
  assume ne: "messages_random_greetings cfg \<noteq> []"
  have "(3 / 10 < random_random e) = (\<not> random_random e \<le> 3 / 10)"
    by auto
  with ne show "get_greeting_message e cfg nick =
      str_replace
        (if random_random e \<le> 3 / 10 then messages_default_greeting cfg
         else messages_random_greetings cfg !
                (random_index e mod length (messages_random_greetings cfg)))
        nickname_token nick"
    by (simp add: get_greeting_message_def random_choice_def Let_def)
  from ne show "random_index e mod length (messages_random_greetings cfg)
      < length (messages_random_greetings cfg)"
    by simp
next
  fix pre post
  show "str_replace (pre @ nickname_token @ post) nickname_token nick =
      str_replace pre nickname_token nick @ nick @ str_replace post nickname_token nick"
    unfolding str_replace_token
    by (rule replace_scan_occurrence [OF nickname_token_border(2) nickname_token_border(1)])
next
  fix s
  assume "\<not> occurs nickname_token s"
  then show "str_replace s nickname_token nick = s"
    unfolding str_replace_token by (rule replace_scan_absent)
qed

lemma ustr_append: "ustr (a @ b) = ustr a @ ustr b"
  by (simp add: ustr_def)

lemma token_absent_examples:
  "\<not> occurs nickname_token (ustr ''Hi '')" "\<not> occurs nickname_token (ustr ''!'')"
  "\<not> occurs nickname_token (ustr ''Hey '')" "\<not> occurs nickname_token (ustr '', '')"
  by (simp_all add: nickname_token_def ustr_def)

theorem get_greeting_message_spec_witness:
  "messages_random_greetings (demo_config True) = []
   \<and> get_greeting_message (alex_env 1762214400) (demo_config True) (ustr ''Alex'')
       = ustr ''Hi Alex!''
   \<and> messages_random_greetings greetings_config \<noteq> []
   \<and> get_greeting_message (alex_env 1762214400) greetings_config (ustr ''Alex'')
       = ustr ''Hey Alex, Alex!''
   \<and> get_greeting_message (quiet_env 1762214400) greetings_config (ustr ''Alex'')
       = ustr ''Hi Alex!''
   \<and> \<not> occurs nickname_token (ustr ''Hi '')"
proof -
  let ?n = "ustr ''Alex''"
  note spec = get_greeting_message_spec [where nick = ?n]
  have absent: "str_replace s nickname_token ?n = s" if "\<not> occurs nickname_token s" for s
    using spec [of "demo_config True" "alex_env 1762214400"] that by blast
  have occ: "str_replace (pre @ nickname_token @ post) nickname_token ?n =
      str_replace pre nickname_token ?n @ ?n @ str_replace post nickname_token ?n" for pre post
    using spec [of "demo_config True" "alex_env 1762214400"] by blast
  have hi: "str_replace (ustr ''Hi {nickname}!'') nickname_token ?n = ustr ''Hi Alex!''"
  proof -
    have "ustr ''Hi {nickname}!'' = ustr ''Hi '' @ nickname_token @ ustr ''!''"
      by (simp add: nickname_token_def ustr_def)
    then show ?thesis
      by (simp add: occ absent token_absent_examples) (simp add: ustr_def)
  qed
  have hey: "str_replace (ustr ''Hey {nickname}, {nickname}!'') nickname_token ?n =
      ustr ''Hey Alex, Alex!''"
  proof -
    have "ustr ''Hey {nickname}, {nickname}!'' =
        ustr ''Hey '' @ nickname_token @ ustr '', '' @ nickname_token @ ustr ''!''"
      by (simp add: nickname_token_def ustr_def)
    then show ?thesis
      by (simp add: occ absent token_absent_examples) (simp add: ustr_def)
  qed
  have e1: "messages_random_greetings (demo_config True) = []"
    by (simp add: demo_config_def)
  have d1: "messages_default_greeting (demo_config True) = ustr ''Hi {nickname}!''"
    by (simp add: demo_config_def)
  have e2: "messages_random_greetings greetings_config = [ustr ''Hey {nickname}, {nickname}!'']"
    and d2: "messages_default_greeting greetings_config = ustr ''Hi {nickname}!''"
    by (simp_all add: greetings_config_def)
  have r1: "\<not> random_random (alex_env 1762214400) \<le> 3 / 10"
    and r2: "random_random (quiet_env 1762214400) \<le> 3 / 10"
    by (simp_all add: alex_env_def quiet_env_def)
  have g1: "get_greeting_message (alex_env 1762214400) (demo_config True) ?n = ustr ''Hi Alex!''"
    using spec [of "demo_config True" "alex_env 1762214400"] e1 by (simp add: d1 hi)
  have g2: "get_greeting_message (alex_env 1762214400) greetings_config ?n =
      ustr ''Hey Alex, Alex!''"
    using spec [of greetings_config "alex_env 1762214400"] r1 by (simp add: e2 hey)
  have g3: "get_greeting_message (quiet_env 1762214400) greetings_config ?n = ustr ''Hi Alex!''"
    using spec [of greetings_config "quiet_env 1762214400"] r2 by (simp add: e2 d2 hi)
  from e1 g1 g2 g3 e2 token_absent_examples(1) show ?thesis
    by simp
qed

section \<open>Listing the private streams\<close>

lemma render_streams_ok:
  "list_all (stream_info_ok e) ss \<Longrightarrow>
   fst (render_streams e i ss lines w) =
     Inr (lines @ map (\<lambda>(k, s). stream_line (i + int k) (the_info e s)) (enumerate 0 ss))"
proof (induction ss arbitrary: i lines w)
  case Nil
  then show ?case by simp
next
  case (Cons s ss)
  from Cons.prems have ok: "stream_info_ok e s" and rest: "list_all (stream_info_ok e) ss"
    by simp_all
  from ok obtain info where info: "get_stream_info e s = Inr info"
    by (cases "get_stream_info e s") (simp_all add: stream_info_ok_def)
  have hd_info: "the_info e s = info"
    by (simp add: the_info_def info)
  have shift: "map (\<lambda>(k, s). stream_line (i + int k) (the_info e s)) (enumerate (Suc 0) ss) =
      map (\<lambda>(k, s). stream_line (i + 1 + int k) (the_info e s)) (enumerate 0 ss)"
    by (simp add: enumerate_Suc_eq split_def add.assoc)
  show ?case
    using Cons.IH [OF rest, of "i + 1" "lines @ [stream_line i info]" "host_call (GetStreamInfo s) w"]
    by (simp add: info hd_info Let_def shift)
qed

lemma list_private_streams_lines:
  assumes "get_private_streams e DEFAULT_PLATFORM = Inr streams"
    and "list_all (stream_info_ok e) (take 20 streams)"
  shows "fst (ListPrivateStreamsCommand_execute e w) =
     (if streams = [] then (True, text_no_streams, True)
      else (True,
            join [10]
              ([text_list_header, []]
               @ map (\<lambda>(k, s).
                        str_of_int (int k + 1) @ ustr ''. ''
                        @ info_get (the_info e s) (ustr ''user_name'') text_unknown_user
                        @ ustr '' (ID: ''
                        @ info_get (the_info e s) (ustr ''user_id'') text_unknown
                        @ ustr '')'')
                   (enumerate 0 (take 20 streams))
               @ (if 20 < length streams
                  then [text_more_streams (int (length streams) - 20)] else [])),
            True))"
proof (cases "streams = []")
  case True
  then show ?thesis
    using assms(1) by (simp add: ListPrivateStreamsCommand_execute_def Let_def)
next
  case False
  let ?w1 = "host_call (GetPrivateStreams DEFAULT_PLATFORM) w"
  have lines: "fst (render_streams e 1 (take 20 streams) [text_list_header, []] ?w1) =
      Inr ([text_list_header, []]
           @ map (\<lambda>(k, s). stream_line (1 + int k) (the_info e s))
               (enumerate 0 (take 20 streams)))"
    using assms(2) by (rule render_streams_ok)
  obtain r w2 where rs:
    "render_streams e 1 (take 20 streams) [text_list_header, []] ?w1 = (r, w2)"
    by (metis prod.exhaust)
  have fmt: "(\<lambda>(k, s). stream_line (1 + int k) (the_info e s)) =
      (\<lambda>(k, s). str_of_int (int k + 1) @ ustr ''. ''
          @ info_get (the_info e s) (ustr ''user_name'') text_unknown_user
          @ ustr '' (ID: ''
          @ info_get (the_info e s) (ustr ''user_id'') text_unknown
          @ ustr '')'')"
    by (simp add: stream_line_def Let_def add.commute)
  show ?thesis
    using False assms(1) lines rs
    by (simp add: ListPrivateStreamsCommand_execute_def Let_def fmt)
qed

lemma read_decimal_show_nat: "read_decimal (show_nat n) = n"
proof (induction n rule: show_nat.induct)
  case (1 n)
  show ?case
  proof (cases "n < 10")
    case True
    then show ?thesis
      by (subst show_nat.simps) (simp add: read_decimal_def)
  next
    case False
    with 1 have "read_decimal (show_nat (n div 10)) = n div 10" by simp
    with False show ?thesis
      by (subst show_nat.simps) (simp add: read_decimal_def)
  qed
qed

lemma str_of_int_nat: "str_of_int (int n) = show_nat n"
  by (simp add: str_of_int_def)

text \<open>
  C10: when the host answers the list of streams and describes the first 20 of them
  without raising, the list command returns success with, for an empty list, exactly the
  fixed no-streams message, and otherwise the header, an empty line, one line for each of
  the first 20 streams at most (its index counted from 1, a dot, the display name, and the
  id in parentheses) and, when there are more than 20 streams, a last line saying how
  many remain; the lines are joined by newlines. Every fixed text is written out, and the
  numbers in the index and in the last line read back as the index and as the number of
  streams past the first 20.
\<close>

theorem list_private_streams_spec:
  assumes "get_private_streams e DEFAULT_PLATFORM = Inr streams"
    and "list_all (stream_info_ok e) (take 20 streams)"
  shows "fst (ListPrivateStreamsCommand_execute e w) =
     (if streams = []
      then (True, [0x5F53, 0x524D, 0x6CA1, 0x6709, 0x53EF, 0x7528, 0x7684, 0x79C1, 0x804A, 0x6D41], True)
      else (True,
            join [10]
              ([[0x1F4CB, 0x20, 0x53EF, 0x7528, 0x7684, 0x79C1, 0x804A, 0x6D41, 0x5217, 0x8868, 0xFF1A],
                []]
               @ map (\<lambda>(k, s).
                        str_of_int (int k + 1) @ ustr ''. ''
                        @ info_get (the_info e s) (ustr ''user_name'')
                            [0x672A, 0x77E5, 0x7528, 0x6237]
                        @ ustr '' (ID: ''
                        @ info_get (the_info e s) (ustr ''user_id'') [0x672A, 0x77E5]
                        @ ustr '')'')
                   (enumerate 0 (take 20 streams))
               @ (if 20 < length streams
                  then [[0x2E, 0x2E, 0x2E, 0x20, 0x8FD8, 0x6709, 0x20]
                        @ str_of_int (int (length streams) - 20)
                        @ [0x20, 0x4E2A, 0x79C1, 0x804A, 0x6D41]]
                  else [])),
            True))
   \<and> (\<forall>k. read_decimal (str_of_int (int k + 1)) = k + 1)
   \<and> (20 < length streams \<longrightarrow>
        read_decimal (str_of_int (int (length streams) - 20)) = length streams - 20)"
proof (intro conjI allI impI)
  show "fst (ListPrivateStreamsCommand_execute e w) =
     (if streams = []
      then (True, [0x5F53, 0x524D, 0x6CA1, 0x6709, 0x53EF, 0x7528, 0x7684, 0x79C1, 0x804A, 0x6D41], True)
      else (True,
            join [10]
              ([[0x1F4CB, 0x20, 0x53EF, 0x7528, 0x7684, 0x79C1, 0x804A, 0x6D41, 0x5217, 0x8868, 0xFF1A],
                []]
               @ map (\<lambda>(k, s).
                        str_of_int (int k + 1) @ ustr ''. ''
                        @ info_get (the_info e s) (ustr ''user_name'')
                            [0x672A, 0x77E5, 0x7528, 0x6237]
                        @ ustr '' (ID: ''
                        @ info_get (the_info e s) (ustr ''user_id'') [0x672A, 0x77E5]
                        @ ustr '')'')
                   (enumerate 0 (take 20 streams))
               @ (if 20 < length streams
                  then [[0x2E, 0x2E, 0x2E, 0x20, 0x8FD8, 0x6709, 0x20]
                        @ str_of_int (int (length streams) - 20)
                        @ [0x20, 0x4E2A, 0x79C1, 0x804A, 0x6D41]]
                  else [])),
            True))"
    using list_private_streams_lines [OF assms, of w]
    unfolding text_no_streams_def text_list_header_def text_unknown_user_def text_unknown_def
      text_more_streams_def .
next
  fix k
  have "int k + 1 = int (Suc k)" by simp
  then show "read_decimal (str_of_int (int k + 1)) = k + 1"
    by (simp only: str_of_int_nat read_decimal_show_nat)
next
  assume "20 < length streams"
  then have "int (length streams) - 20 = int (length streams - 20)" by simp
  then show "read_decimal (str_of_int (int (length streams) - 20)) = length streams - 20"
    by (simp only: str_of_int_nat read_decimal_show_nat)
qed

lemma show_nat_digit: "n < 10 \<Longrightarrow> show_nat n = [48 + n]"
  by (subst show_nat.simps) simp

lemma show_nat_two_digits:
  "10 \<le> n \<Longrightarrow> n < 100 \<Longrightarrow> show_nat n = [48 + n div 10, 48 + n mod 10]"
  by (subst show_nat.simps) (simp add: show_nat_digit)

theorem list_private_streams_spec_witness:
  "get_private_streams (alex_env 1762214400) DEFAULT_PLATFORM = Inr [Stream (ustr ''s42'')]
   \<and> list_all (stream_info_ok (alex_env 1762214400)) (take 20 [Stream (ustr ''s42'')])
   \<and> fst (ListPrivateStreamsCommand_execute (alex_env 1762214400) fresh_world) =
       (True,
        [0x1F4CB, 0x20, 0x53EF, 0x7528, 0x7684, 0x79C1, 0x804A, 0x6D41, 0x5217, 0x8868, 0xFF1A] @ [10, 10]
          @ ustr ''1. Alex (ID: 42)'',
        True)
   \<and> get_private_streams (quiet_env 1762214400) DEFAULT_PLATFORM = Inr []
   \<and> list_all (stream_info_ok (quiet_env 1762214400)) (take 20 [])
   \<and> fst (ListPrivateStreamsCommand_execute (quiet_env 1762214400) fresh_world) =
       (True, [0x5F53, 0x524D, 0x6CA1, 0x6709, 0x53EF, 0x7528, 0x7684, 0x79C1, 0x804A, 0x6D41], True)
   \<and> get_private_streams (crowd_env 1762214400) DEFAULT_PLATFORM =
       Inr (replicate 21 (Stream (ustr ''s42'')))
   \<and> list_all (stream_info_ok (crowd_env 1762214400))
        (take 20 (replicate 21 (Stream (ustr ''s42''))))
   \<and> length (replicate 21 (Stream (ustr ''s42''))) = 21
   \<and> fst (ListPrivateStreamsCommand_execute (crowd_env 1762214400) fresh_world) =
       (True,
        [0x1F4CB, 0x20, 0x53EF, 0x7528, 0x7684, 0x79C1, 0x804A, 0x6D41, 0x5217, 0x8868, 0xFF1A] @ [10, 10]
          @ ustr ''1. Alex (ID: 42)'' @ [10]
          @ ustr ''2. Alex (ID: 42)'' @ [10]
          @ ustr ''3. Alex (ID: 42)'' @ [10]
          @ ustr ''4. Alex (ID: 42)'' @ [10]
          @ ustr ''5. Alex (ID: 42)'' @ [10]
          @ ustr ''6. Alex (ID: 42)'' @ [10]
          @ ustr ''7. Alex (ID: 42)'' @ [10]
          @ ustr ''8. Alex (ID: 42)'' @ [10]
          @ ustr ''9. Alex (ID: 42)'' @ [10]
          @ ustr ''10. Alex (ID: 42)'' @ [10]
          @ ustr ''11. Alex (ID: 42)'' @ [10]
          @ ustr ''12. Alex (ID: 42)'' @ [10]
          @ ustr ''13. Alex (ID: 42)'' @ [10]
          @ ustr ''14. Alex (ID: 42)'' @ [10]
          @ ustr ''15. Alex (ID: 42)'' @ [10]
          @ ustr ''16. Alex (ID: 42)'' @ [10]
          @ ustr ''17. Alex (ID: 42)'' @ [10]
          @ ustr ''18. Alex (ID: 42)'' @ [10]
          @ ustr ''19. Alex (ID: 42)'' @ [10]
          @ ustr ''20. Alex (ID: 42)'' @ [10]
          @ [0x2E, 0x2E, 0x2E, 0x20, 0x8FD8, 0x6709, 0x20, 0x31, 0x20, 0x4E2A, 0x79C1, 0x804A, 0x6D41],
        True)
   \<and> read_decimal (str_of_int (int (length (replicate 21 (Stream (ustr ''s42'')))) - 20)) = 1"
proof -
  have a1: "get_private_streams (alex_env 1762214400) DEFAULT_PLATFORM =
      Inr [Stream (ustr ''s42'')]"
    by (simp add: alex_env_def)
  have a2: "list_all (stream_info_ok (alex_env 1762214400)) (take 20 [Stream (ustr ''s42'')])"
    by (simp add: stream_info_ok_def alex_env_def)
  have info: "the_info (alex_env 1762214400) s =
      [ustr ''user_id'' \<mapsto> ustr ''42'', ustr ''user_name'' \<mapsto> ustr ''Alex'']" for s
    by (simp add: the_info_def alex_env_def)
  have g: "info_get (the_info (alex_env 1762214400) s) (ustr ''user_name'') d = ustr ''Alex''"
    "info_get (the_info (alex_env 1762214400) s) (ustr ''user_id'') d = ustr ''42''" for s d
    by (simp_all add: info info_get_def ustr_def)
  have num: "str_of_int (int k + 1) = show_nat (Suc k)" for k
    using str_of_int_nat [of "Suc k"] by (simp add: add.commute)
  have a3: "fst (ListPrivateStreamsCommand_execute (alex_env 1762214400) fresh_world) =
       (True,
        [0x1F4CB, 0x20, 0x53EF, 0x7528, 0x7684, 0x79C1, 0x804A, 0x6D41, 0x5217, 0x8868, 0xFF1A] @ [10, 10]
          @ ustr ''1. Alex (ID: 42)'',
        True)"
    using list_private_streams_spec [OF a1 a2, of fresh_world]
    by (simp add: enumerate_eq_zip g num show_nat_digit) (simp add: ustr_def)
  have q1: "get_private_streams (quiet_env 1762214400) DEFAULT_PLATFORM = Inr []"
    by (simp add: quiet_env_def)
  have q2: "list_all (stream_info_ok (quiet_env 1762214400)) (take 20 [])"
    by simp
  have q3: "fst (ListPrivateStreamsCommand_execute (quiet_env 1762214400) fresh_world) =
       (True, [0x5F53, 0x524D, 0x6CA1, 0x6709, 0x53EF, 0x7528, 0x7684, 0x79C1, 0x804A, 0x6D41], True)"
    using list_private_streams_spec [OF q1 q2, of fresh_world] by simp
  have c1: "get_private_streams (crowd_env 1762214400) DEFAULT_PLATFORM =
       Inr (replicate 21 (Stream (ustr ''s42'')))"
    by (simp add: crowd_env_def)
  have c2: "list_all (stream_info_ok (crowd_env 1762214400))
        (take 20 (replicate 21 (Stream (ustr ''s42''))))"
    by (simp add: stream_info_ok_def crowd_env_def alex_env_def list_all_iff)
  have cl: "length (replicate 21 (Stream (ustr ''s42''))) = 21"
    by simp
  have cinfo: "the_info (crowd_env 1762214400) s = the_info (alex_env 1762214400) s" for s
    by (simp add: the_info_def crowd_env_def)
  have upt20: "[0..<20] = [0, 1, 2, 3, 4, 5, 6, 7, 8, 9, 10, 11, 12, 13, 14, 15, 16, 17, 18, 19]"
    by (simp add: upt_rec)
  note c = list_private_streams_spec [OF c1 c2, of fresh_world]
  have c3: "fst (ListPrivateStreamsCommand_execute (crowd_env 1762214400) fresh_world) =
       (True,
        [0x1F4CB, 0x20, 0x53EF, 0x7528, 0x7684, 0x79C1, 0x804A, 0x6D41, 0x5217, 0x8868, 0xFF1A] @ [10, 10]
          @ ustr ''1. Alex (ID: 42)'' @ [10]
          @ ustr ''2. Alex (ID: 42)'' @ [10]
          @ ustr ''3. Alex (ID: 42)'' @ [10]
          @ ustr ''4. Alex (ID: 42)'' @ [10]
          @ ustr ''5. Alex (ID: 42)'' @ [10]
          @ ustr ''6. Alex (ID: 42)'' @ [10]
          @ ustr ''7. Alex (ID: 42)'' @ [10]
          @ ustr ''8. Alex (ID: 42)'' @ [10]
          @ ustr ''9. Alex (ID: 42)'' @ [10]
          @ ustr ''10. Alex (ID: 42)'' @ [10]
          @ ustr ''11. Alex (ID: 42)'' @ [10]
          @ ustr ''12. Alex (ID: 42)'' @ [10]
          @ ustr ''13. Alex (ID: 42)'' @ [10]
          @ ustr ''14. Alex (ID: 42)'' @ [10]
          @ ustr ''15. Alex (ID: 42)'' @ [10]
          @ ustr ''16. Alex (ID: 42)'' @ [10]
          @ ustr ''17. Alex (ID: 42)'' @ [10]
          @ ustr ''18. Alex (ID: 42)'' @ [10]
          @ ustr ''19. Alex (ID: 42)'' @ [10]
          @ ustr ''20. Alex (ID: 42)'' @ [10]
          @ [0x2E, 0x2E, 0x2E, 0x20, 0x8FD8, 0x6709, 0x20, 0x31, 0x20, 0x4E2A, 0x79C1, 0x804A, 0x6D41],
        True)"
    using c
    by (simp add: enumerate_eq_zip zip_replicate2 cinfo g num comp_def upt20
        show_nat_digit show_nat_two_digits str_of_int_def)
      (simp add: ustr_def)
  have c4: "read_decimal (str_of_int (int (length (replicate 21 (Stream (ustr ''s42'')))) - 20))
      = 1"
    using c by simp
  from a1 a2 a3 q1 q2 q3 c1 c2 cl c3 c4 show ?thesis by blast
qed

end
